theory Spec2Isabelle
  imports Main "HOL-Library.Sublist" "HOL-Library.AList"
begin

section \<open>Errors\<close>

text \<open>
  A Go \<^verbatim>\<open>error\<close> value. \<open>AwsErr code message\<close> is an \<^verbatim>\<open>awserr.Error\<close> (it has
  \<^verbatim>\<open>Code()\<close> and \<^verbatim>\<open>Message()\<close>), \<open>PlainErr message\<close> is an error made by
  \<^verbatim>\<open>errors.New\<close> or \<^verbatim>\<open>fmt.Errorf\<close>, \<open>ServerError code message\<close> is the domain error
  made by \<^verbatim>\<open>errors.Newf\<close>, \<open>WaitTimeout name\<close> is the timeout error of the Waiter
  named \<open>name\<close>, and \<open>NilPanic\<close> stands for the run-time panic of a nil pointer
  dereference. A function that returns \<^verbatim>\<open>error\<close> returns \<open>error + unit\<close>,
  \<open>Inr ()\<close> being \<^verbatim>\<open>nil\<close>.
\<close>

datatype error =
    AwsErr string string
  | PlainErr string
  | ServerError string string
  | WaitTimeout string
  | NilPanic

text \<open>\<^verbatim>\<open>err.Error()\<close>: an AWS error prints as its code, a colon and its message.\<close>

fun err_Error :: "error \<Rightarrow> string" where
  "err_Error (AwsErr c m) = c @ '': '' @ m"
| "err_Error (PlainErr m) = m"
| "err_Error (ServerError c m) = m"
| "err_Error (WaitTimeout name) = name @ '': timed out''"
| "err_Error NilPanic = ''invalid memory address or nil pointer dereference''"

text \<open>\<^verbatim>\<open>strings.Contains(s, sub)\<close>.\<close>

fun strings_Contains :: "string \<Rightarrow> string \<Rightarrow> bool" where
  "strings_Contains [] sub = (sub = [])"
| "strings_Contains (c # s) sub = (prefix sub (c # s) \<or> strings_Contains s sub)"

section \<open>Tag store (api/tag/dynamo\_store.go)\<close>

subsection \<open>The backing table\<close>

text \<open>
  \<^verbatim>\<open>DynamoTagSchema\<close> is one item of the table; its primary key is the pair
  (\<open>EntityType\<close>, \<open>EntityID\<close>). The Go map \<^verbatim>\<open>Tags\<close> is an association list read
  with \<open>map_of\<close> and changed with \<open>AList.update\<close> and \<open>AList.delete\<close>; the empty
  list is both the nil and the empty map, and \<^verbatim>\<open>len(Tags) > 0\<close> is \<open>Tags \<noteq> []\<close>.
  The order of the list is an artefact of the model (Go iterates a map in no fixed order).
\<close>

record DynamoTagSchema =
  EntityType :: string
  EntityID :: string
  Tags :: "(string \<times> string) list"

text \<open>\<^verbatim>\<open>models.Tag\<close>, with the four fields the store reads and writes.\<close>

record Tag =
  tag_EntityType :: string
  tag_EntityID :: string
  Key :: string
  Value :: string

text \<open>The requests the store sends to the table through the \<^verbatim>\<open>dynamo\<close> client.\<close>

datatype dynamo_request =
    GetOne string string
  | GetAll string
  | PutIfNotExists DynamoTagSchema
  | UpdateSetTags string string "(string \<times> string) list"
  | DeleteItem string string

text \<open>
  The table: its items, the requests sent to it so far, and the requests the service
  refuses (throttling, a rejected parameter, a lost connection) with the error it answers.
  The client library and the service are not part of the repository; the operations below
  give them the semantics of a key-value table: a read of a missing item answers
  \<^verbatim>\<open>dynamo: no item found\<close>, a conditional put on an existing key answers
  \<^verbatim>\<open>ConditionalCheckFailedException\<close>, an update creates the item when it is missing,
  and a delete of a missing item succeeds. The client encodes a map without the entries
  whose value is the empty string, so \<open>stored_tags\<close> is what a write of \<^verbatim>\<open>Tags\<close>
  stores.
\<close>

record dynamo_table =
  items :: "DynamoTagSchema list"
  sent :: "dynamo_request list"
  refuses :: "dynamo_request \<Rightarrow> error option"

definition stored_tags :: "(string \<times> string) list \<Rightarrow> (string \<times> string) list" where
  "stored_tags tags = filter (\<lambda>kv. snd kv \<noteq> []) tags"

definition has_key :: "string \<Rightarrow> string \<Rightarrow> DynamoTagSchema \<Rightarrow> bool" where
  "has_key et eid s = (EntityType s = et \<and> EntityID s = eid)"

definition ErrNotFound :: error where
  "ErrNotFound = PlainErr ''dynamo: no item found''"

definition send :: "dynamo_request \<Rightarrow> dynamo_table \<Rightarrow> dynamo_table" where
  "send r t = t\<lparr>sent := sent t @ [r]\<rparr>"

definition table_One ::
  "string \<Rightarrow> string \<Rightarrow> dynamo_table \<Rightarrow> (error + DynamoTagSchema) \<times> dynamo_table" where
  "table_One et eid t =
     (case refuses t (GetOne et eid) of
        Some e \<Rightarrow> (Inl e, send (GetOne et eid) t)
      | None \<Rightarrow>
          (case find (has_key et eid) (items t) of
             None \<Rightarrow> (Inl ErrNotFound, send (GetOne et eid) t)
           | Some s \<Rightarrow> (Inr s, send (GetOne et eid) t)))"

definition table_All ::
  "string \<Rightarrow> dynamo_table \<Rightarrow> (error + DynamoTagSchema list) \<times> dynamo_table" where
  "table_All et t =
     (case refuses t (GetAll et) of
        Some e \<Rightarrow> (Inl e, send (GetAll et) t)
      | None \<Rightarrow> (Inr (filter (\<lambda>s. EntityType s = et) (items t)), send (GetAll et) t))"

definition table_PutIfNotExists ::
  "DynamoTagSchema \<Rightarrow> dynamo_table \<Rightarrow> (error + unit) \<times> dynamo_table" where
  "table_PutIfNotExists s t =
     (case refuses t (PutIfNotExists s) of
        Some e \<Rightarrow> (Inl e, send (PutIfNotExists s) t)
      | None \<Rightarrow>
          (if list_ex (has_key (EntityType s) (EntityID s)) (items t)
           then (Inl (AwsErr ''ConditionalCheckFailedException'' ''The conditional request failed''),
                 send (PutIfNotExists s) t)
           else (Inr (), send (PutIfNotExists s)
                   (t\<lparr>items := items t @ [s\<lparr>Tags := stored_tags (Tags s)\<rparr>]\<rparr>))))"

definition table_UpdateSetTags ::
  "string \<Rightarrow> string \<Rightarrow> (string \<times> string) list \<Rightarrow> dynamo_table \<Rightarrow> (error + unit) \<times> dynamo_table" where
  "table_UpdateSetTags et eid tags t =
     (case refuses t (UpdateSetTags et eid tags) of
        Some e \<Rightarrow> (Inl e, send (UpdateSetTags et eid tags) t)
      | None \<Rightarrow>
          (if list_ex (has_key et eid) (items t)
           then (Inr (), send (UpdateSetTags et eid tags)
                   (t\<lparr>items := map (\<lambda>s. if has_key et eid s then s\<lparr>Tags := stored_tags tags\<rparr> else s)
                                  (items t)\<rparr>))
           else (Inr (), send (UpdateSetTags et eid tags)
                   (t\<lparr>items := items t @ [\<lparr>EntityType = et, EntityID = eid, Tags = stored_tags tags\<rparr>]\<rparr>))))"

definition table_Delete ::
  "string \<Rightarrow> string \<Rightarrow> dynamo_table \<Rightarrow> (error + unit) \<times> dynamo_table" where
  "table_Delete et eid t =
     (case refuses t (DeleteItem et eid) of
        Some e \<Rightarrow> (Inl e, send (DeleteItem et eid) t)
      | None \<Rightarrow>
          (Inr (), send (DeleteItem et eid)
             (t\<lparr>items := filter (\<lambda>s. \<not> has_key et eid s) (items t)\<rparr>)))"

subsection \<open>The store\<close>

text \<open>\<^verbatim>\<open>DynamoTagSchema.ToTags\<close>: one tag for each entry of the map.\<close>

definition ToTags :: "DynamoTagSchema \<Rightarrow> Tag list" where
  "ToTags s =
     map (\<lambda>(k, v). \<lparr>tag_EntityType = EntityType s, tag_EntityID = EntityID s, Key = k, Value = v\<rparr>)
       (Tags s)"

text \<open>
  \<^verbatim>\<open>DynamoStore.selectByTypeAndID\<close>: the two checks of the arguments come before the
  strongly consistent read of the item.
\<close>

definition selectByTypeAndID ::
  "string \<Rightarrow> string \<Rightarrow> dynamo_table \<Rightarrow> (error + DynamoTagSchema) \<times> dynamo_table" where
  "selectByTypeAndID entityType entityID t =
     (if entityType = [] then (Inl (PlainErr ''Failed to select tags: EntityType is required''), t)
      else if entityID = [] then (Inl (PlainErr ''Failed to select tags: EntityID is required''), t)
      else table_One entityType entityID t)"

text \<open>\<^verbatim>\<open>DynamoStore.Delete\<close>.\<close>

definition tag_Delete ::
  "string \<Rightarrow> string \<Rightarrow> string \<Rightarrow> dynamo_table \<Rightarrow> (error + unit) \<times> dynamo_table" where
  "tag_Delete entityType entityID key t =
     (case selectByTypeAndID entityType entityID t of
        (Inl err, t1) \<Rightarrow> (Inl err, t1)
      | (Inr schema, t1) \<Rightarrow>
          (if map_of (Tags schema) key = None then (Inr (), t1)
           else if AList.delete key (Tags schema) \<noteq> []
             then table_UpdateSetTags (EntityType schema) (EntityID schema)
                    (AList.delete key (Tags schema)) t1
             else table_Delete (EntityType schema) (EntityID schema) t1))"

text \<open>\<^verbatim>\<open>DynamoStore.insertKey\<close>.\<close>

definition insertKey :: "Tag \<Rightarrow> dynamo_table \<Rightarrow> (error + unit) \<times> dynamo_table" where
  "insertKey tag t =
     (case selectByTypeAndID (tag_EntityType tag) (tag_EntityID tag) t of
        (Inl err, t1) \<Rightarrow> (Inl err, t1)
      | (Inr schema, t1) \<Rightarrow>
          table_UpdateSetTags (tag_EntityType tag) (tag_EntityID tag)
            (AList.update (Key tag) (Value tag) (Tags schema)) t1)"

text \<open>\<^verbatim>\<open>DynamoStore.Insert\<close>: a put on condition that the item is new, else a patch.\<close>

definition tag_Insert :: "Tag \<Rightarrow> dynamo_table \<Rightarrow> (error + unit) \<times> dynamo_table" where
  "tag_Insert tag t =
     (case table_PutIfNotExists
             \<lparr>EntityType = tag_EntityType tag, EntityID = tag_EntityID tag,
              Tags = [(Key tag, Value tag)]\<rparr> t of
        (Inl err, t1) \<Rightarrow>
          (case err of
             AwsErr c m \<Rightarrow>
               if c = ''ConditionalCheckFailedException'' then insertKey tag t1 else (Inl err, t1)
           | _ \<Rightarrow> (Inl err, t1))
      | (Inr u, t1) \<Rightarrow> (Inr (), t1))"

text \<open>\<^verbatim>\<open>DynamoStore.SelectByTypeAndID\<close>.\<close>

definition SelectByTypeAndID ::
  "string \<Rightarrow> string \<Rightarrow> dynamo_table \<Rightarrow> (error + Tag list) \<times> dynamo_table" where
  "SelectByTypeAndID entityType entityID t =
     (case selectByTypeAndID entityType entityID t of
        (Inl err, t1) \<Rightarrow>
          (if err_Error err = ''dynamo: no item found'' then (Inr [], t1) else (Inl err, t1))
      | (Inr schema, t1) \<Rightarrow> (Inr (ToTags schema), t1))"

text \<open>\<^verbatim>\<open>DynamoStore.selectByType\<close> and \<^verbatim>\<open>DynamoStore.SelectByType\<close>.\<close>

definition selectByType ::
  "string \<Rightarrow> dynamo_table \<Rightarrow> (error + DynamoTagSchema list) \<times> dynamo_table" where
  "selectByType entityType t = table_All entityType t"

definition SelectByType ::
  "string \<Rightarrow> dynamo_table \<Rightarrow> (error + Tag list) \<times> dynamo_table" where
  "SelectByType entityType t =
     (case selectByType entityType t of
        (Inl err, t1) \<Rightarrow>
          (if err_Error err = ''dynamo: no item found'' then (Inr [], t1) else (Inl err, t1))
      | (Inr schemas, t1) \<Rightarrow> (Inr (concat (map ToTags schemas)), t1))"

text \<open>
  The scenario of the round trip: insert the tags one after the other, then delete the
  keys one after the other, stopping at the first error as a caller would.
\<close>

fun insert_tags :: "Tag list \<Rightarrow> dynamo_table \<Rightarrow> (error + unit) \<times> dynamo_table" where
  "insert_tags [] t = (Inr (), t)"
| "insert_tags (tag # tags) t =
     (case tag_Insert tag t of
        (Inl err, t1) \<Rightarrow> (Inl err, t1)
      | (Inr u, t1) \<Rightarrow> insert_tags tags t1)"

fun delete_keys :: "string \<Rightarrow> string \<Rightarrow> string list \<Rightarrow> dynamo_table \<Rightarrow> (error + unit) \<times> dynamo_table" where
  "delete_keys et eid [] t = (Inr (), t)"
| "delete_keys et eid (k # ks) t =
     (case tag_Delete et eid k t of
        (Inl err, t1) \<Rightarrow> (Inl err, t1)
      | (Inr u, t1) \<Rightarrow> delete_keys et eid ks t1)"

definition mk_tag :: "string \<Rightarrow> string \<Rightarrow> string \<times> string \<Rightarrow> Tag" where
  "mk_tag et eid kv = \<lparr>tag_EntityType = et, tag_EntityID = eid, Key = fst kv, Value = snd kv\<rparr>"

text \<open>The tags the table holds for an entity, if it holds a record of it.\<close>

definition record_of :: "dynamo_table \<Rightarrow> string \<Rightarrow> string \<Rightarrow> (string \<times> string) list option" where
  "record_of t et eid = map_option Tags (find (has_key et eid) (items t))"

text \<open>A table that answers every request, and an empty one.\<close>

definition serves_all :: "dynamo_table \<Rightarrow> bool" where
  "serves_all t = (\<forall>r. refuses t r = None)"

definition empty_table :: dynamo_table where
  "empty_table = \<lparr>items = [], sent = [], refuses = (\<lambda>r. None)\<rparr>"


section \<open>Calls to a provider, and their trace\<close>

text \<open>
  The managers call provider clients and a clock. A run is a function from the calls made
  so far to a result and the calls made after it: \<open>invoke c answer\<close> records the call
  \<open>c\<close> and returns what the provider answers to it, which may depend on every call
  before it. A Go function that returns \<^verbatim>\<open>(value, error)\<close> returns \<open>Inr value\<close> or
  \<open>Inl error\<close>; \<open>bind_io\<close> is the \<^verbatim>\<open>if err != nil { return err }\<close> of the source
  and \<open>handle\<close> is an \<^verbatim>\<open>if err != nil { ... }\<close> block that looks at the error.
\<close>

type_synonym ('c, 'a) io = "'c list \<Rightarrow> (error + 'a) \<times> 'c list"

definition ret :: "'a \<Rightarrow> ('c, 'a) io" where
  "ret x = (\<lambda>h. (Inr x, h))"

definition raise :: "error \<Rightarrow> ('c, 'a) io" where
  "raise e = (\<lambda>h. (Inl e, h))"

definition bind_io :: "('c, 'a) io \<Rightarrow> ('a \<Rightarrow> ('c, 'b) io) \<Rightarrow> ('c, 'b) io" where
  "bind_io m f = (\<lambda>h. case m h of (Inl e, h1) \<Rightarrow> (Inl e, h1) | (Inr x, h1) \<Rightarrow> f x h1)"

definition handle :: "('c, 'a) io \<Rightarrow> (error \<Rightarrow> ('c, 'a) io) \<Rightarrow> ('c, 'a) io" where
  "handle m f = (\<lambda>h. case m h of (Inl e, h1) \<Rightarrow> f e h1 | (Inr x, h1) \<Rightarrow> (Inr x, h1))"

definition invoke :: "'c \<Rightarrow> ('c list \<Rightarrow> error + 'a) \<Rightarrow> ('c, 'a) io" where
  "invoke c answer = (\<lambda>h. (answer h, h @ [c]))"

text \<open>A string between single quotes, as \<^verbatim>\<open>'%s'\<close> prints it.\<close>

definition quoted :: "string \<Rightarrow> string" where
  "quoted s = CHR 0x27 # s @ [CHR 0x27]"

section \<open>Task delete (api/provider/aws/task\_delete.go)\<close>

text \<open>
  The calls of \<^verbatim>\<open>TaskProvider.Delete\<close>. The two lookups and \<^verbatim>\<open>deleteEntityTags\<close>
  work on the tag store and \<^verbatim>\<open>StopTask\<close> on the cluster service; their code is not in
  the files at hand, so each is a call whose answer the \<open>TaskProvider\<close> gives.
  \<open>addLayer0Prefix\<close> is \<^verbatim>\<open>addLayer0Prefix(t.Config.Instance(), _)\<close> and
  \<open>Validate\<close> is \<^verbatim>\<open>StopTaskInput.Validate\<close> on the input holding the cluster name and
  the task ARN.
\<close>

datatype task_call =
    LookupEntityEnvironmentID string string
  | LookupTaskARN string
  | ECS_StopTask string string
  | DeleteEntityTags string string

record TaskProvider =
  answer_lookupEntityEnvironmentID :: "task_call list \<Rightarrow> string \<Rightarrow> string \<Rightarrow> error + string"
  answer_lookupTaskARN :: "task_call list \<Rightarrow> string \<Rightarrow> error + string"
  answer_StopTask :: "task_call list \<Rightarrow> string \<Rightarrow> string \<Rightarrow> error + unit"
  answer_deleteEntityTags :: "task_call list \<Rightarrow> string \<Rightarrow> string \<Rightarrow> error + unit"
  addLayer0Prefix :: "string \<Rightarrow> string"
  Validate :: "string \<Rightarrow> string \<Rightarrow> error option"

definition lookupEntityEnvironmentID :: "TaskProvider \<Rightarrow> string \<Rightarrow> string \<Rightarrow> (task_call, string) io" where
  "lookupEntityEnvironmentID t entityType entityID =
     invoke (LookupEntityEnvironmentID entityType entityID)
       (\<lambda>h. answer_lookupEntityEnvironmentID t h entityType entityID)"

definition lookupTaskARN :: "TaskProvider \<Rightarrow> string \<Rightarrow> (task_call, string) io" where
  "lookupTaskARN t taskID = invoke (LookupTaskARN taskID) (\<lambda>h. answer_lookupTaskARN t h taskID)"

definition StopTask :: "TaskProvider \<Rightarrow> string \<Rightarrow> string \<Rightarrow> (task_call, unit) io" where
  "StopTask t clusterName taskARN =
     invoke (ECS_StopTask clusterName taskARN) (\<lambda>h. answer_StopTask t h clusterName taskARN)"

definition deleteEntityTags :: "TaskProvider \<Rightarrow> string \<Rightarrow> string \<Rightarrow> (task_call, unit) io" where
  "deleteEntityTags t entityType entityID =
     invoke (DeleteEntityTags entityType entityID)
       (\<lambda>h. answer_deleteEntityTags t h entityType entityID)"

text \<open>
  \<^verbatim>\<open>TaskProvider.stopTask\<close>. The block after \<^verbatim>\<open>StopTask\<close> returns \<^verbatim>\<open>nil\<close> for a
  message that holds "task was not found" and has no other statement; the function then
  ends with \<^verbatim>\<open>return nil\<close>.
\<close>

definition stopTask :: "TaskProvider \<Rightarrow> string \<Rightarrow> string \<Rightarrow> (task_call, unit) io" where
  "stopTask t clusterName taskARN =
     (case Validate t clusterName taskARN of
        Some err \<Rightarrow> raise err
      | None \<Rightarrow>
          bind_io
            (handle (StopTask t clusterName taskARN)
               (\<lambda>err. case err of
                    AwsErr c m \<Rightarrow> if strings_Contains m ''task was not found'' then ret () else ret ()
                  | _ \<Rightarrow> ret ()))
            (\<lambda>u. ret ()))"

text \<open>\<^verbatim>\<open>TaskProvider.Delete\<close>: a failed lookup is logged and the function returns \<^verbatim>\<open>nil\<close>.\<close>

definition task_Delete :: "TaskProvider \<Rightarrow> string \<Rightarrow> (task_call, unit) io" where
  "task_Delete t taskID =
     (\<lambda>h. case lookupEntityEnvironmentID t ''task'' taskID h of
         (Inl err, h1) \<Rightarrow> (Inr (), h1)
       | (Inr environmentID, h1) \<Rightarrow>
           (case lookupTaskARN t taskID h1 of
              (Inl err, h2) \<Rightarrow> (Inr (), h2)
            | (Inr taskARN, h2) \<Rightarrow>
                bind_io (stopTask t (addLayer0Prefix t environmentID) taskARN)
                  (\<lambda>u. bind_io (deleteEntityTags t ''task'' taskID) (\<lambda>u. ret ())) h2))"


section \<open>Environment manager (api/backend/ecs/environment\_manager.go)\<close>

subsection \<open>Data\<close>

text \<open>\<^verbatim>\<open>models.Environment\<close>, and the value of a struct literal that sets no field.\<close>

record Environment =
  EnvironmentID :: string
  EnvironmentName :: string
  ClusterCount :: int
  InstanceSize :: string
  SecurityGroupID :: string
  OperatingSystem :: string
  AMIID :: string
  Links :: "string list"

definition zero_Environment :: Environment where
  "zero_Environment =
     \<lparr>EnvironmentID = [], EnvironmentName = [], ClusterCount = 0, InstanceSize = [],
      SecurityGroupID = [], OperatingSystem = [], AMIID = [], Links = []\<rparr>"

text \<open>
  The provider structs, with the fields the manager reads. A field of pointer type is an
  option, \<open>None\<close> being \<^verbatim>\<open>nil\<close>; reading through a nil pointer is \<open>NilPanic\<close>.
\<close>

record Cluster =
  ClusterName :: "string option"

record SecurityGroup =
  GroupId :: "string option"

record AutoScalingGroup =
  Instances :: "string list"
  group_LaunchConfigurationName :: "string option"
  MaxSize :: "int option"
  Status :: "string option"

record LaunchConfiguration =
  InstanceType :: "string option"
  ImageId :: "string option"

text \<open>\<^verbatim>\<open>pstring\<close>: the string behind a pointer, empty for \<^verbatim>\<open>nil\<close>.\<close>

definition pstring :: "string option \<Rightarrow> string" where
  "pstring p = (case p of None \<Rightarrow> [] | Some s \<Rightarrow> s)"

text \<open>
  What the manager takes from the packages \<^verbatim>\<open>id\<close> and \<^verbatim>\<open>config\<close>, from
  \<^verbatim>\<open>text/template\<close>, \<^verbatim>\<open>encoding/base64\<close> and \<^verbatim>\<open>strings\<close>
  (\<open>ToLower\<close> is \<^verbatim>\<open>strings.ToLower\<close>, which lowers every letter of Unicode), and
  from the helpers of its own package that are in other files. An environment ID of either kind is a string;
  \<open>ECSEnvironmentID\<close> is \<^verbatim>\<open>id.L0EnvironmentID(x).ECSEnvironmentID()\<close>,
  \<open>L0EnvironmentID\<close> is \<^verbatim>\<open>id.ECSEnvironmentID(x).L0EnvironmentID()\<close>, and
  \<^verbatim>\<open>String()\<close> is the conversion back to a string. The two default user data
  templates are constants of the file; only their being passed on matters here.
\<close>

record deps =
  PREFIX :: string
  ECSEnvironmentID :: "string \<Rightarrow> string"
  L0EnvironmentID :: "string \<Rightarrow> string"
  SecurityGroupName :: "string \<Rightarrow> string"
  AutoScalingGroupName :: "string \<Rightarrow> string"
  LaunchConfigurationName :: "string \<Rightarrow> string"
  GenerateHashedEntityID :: "string \<Rightarrow> string"
  AWSLinuxServiceAMI :: string
  AWSWindowsServiceAMI :: string
  AWSVPCID :: string
  AWSAgentGroupID :: string
  AWSECSInstanceProfile :: string
  AWSKeyPair :: string
  AWSPrivateSubnets :: string
  AWSS3Bucket :: string
  defaultLinuxUserDataTemplate :: string
  defaultWindowsUserDataTemplate :: string
  template_Parse :: "string \<Rightarrow> error + string"
  template_Execute :: "string \<Rightarrow> string \<Rightarrow> string \<Rightarrow> error + string"
  base64_EncodeToString :: "string \<Rightarrow> string"
  ToLower :: "string \<Rightarrow> string"
  ContainsErrCode :: "error \<Rightarrow> string \<Rightarrow> bool"
  ContainsErrMsg :: "error \<Rightarrow> string \<Rightarrow> bool"
  fmt_SecurityGroup :: "SecurityGroup \<Rightarrow> string"

text \<open>
  The lower case of a string of ASCII characters: the letters A to Z become a to z. On
  such a string it is what \<^verbatim>\<open>strings.ToLower\<close> returns; the test instance below uses it.
\<close>

definition lower_char :: "char \<Rightarrow> char" where
  "lower_char c =
     (case map_of (zip ''ABCDEFGHIJKLMNOPQRSTUVWXYZ'' ''abcdefghijklmnopqrstuvwxyz'') c of
        Some l \<Rightarrow> l
      | None \<Rightarrow> c)"

definition ascii_ToLower :: "string \<Rightarrow> string" where
  "ascii_ToLower s = map lower_char s"

subsection \<open>The provider clients and the clock\<close>

datatype call =
    ECS_Helper_DescribeClusters
  | ECS_DescribeCluster string
  | ECS_CreateCluster string
  | ECS_DeleteCluster string
  | EC2_DescribeSecurityGroup string
  | EC2_CreateSecurityGroup string string string
  | EC2_AuthorizeSecurityGroupIngressFromGroup "string option" "string option"
  | EC2_DeleteSecurityGroup SecurityGroup
  | AutoScaling_DescribeAutoScalingGroup string
  | AutoScaling_DescribeLaunchConfiguration string
  | AutoScaling_CreateLaunchConfiguration string string string string string string "string option list"
  | AutoScaling_CreateAutoScalingGroup string string string int int
  | AutoScaling_UpdateAutoScalingGroupMaxSize string int
  | AutoScaling_UpdateAutoScalingGroupMinSize string int
  | AutoScaling_DeleteAutoScalingGroup string
  | AutoScaling_DeleteLaunchConfiguration string
  | Clock_Sleep nat

text \<open>
  What the three provider clients answer: each answer is a function of the calls made
  before and of the arguments. A result of pointer type is an option.
\<close>

record provider =
  answer_Helper_DescribeClusters :: "call list \<Rightarrow> error + Cluster list"
  answer_DescribeCluster :: "call list \<Rightarrow> string \<Rightarrow> error + Cluster option"
  answer_CreateCluster :: "call list \<Rightarrow> string \<Rightarrow> error + Cluster option"
  answer_DeleteCluster :: "call list \<Rightarrow> string \<Rightarrow> error + unit"
  answer_DescribeSecurityGroup :: "call list \<Rightarrow> string \<Rightarrow> error + SecurityGroup option"
  answer_CreateSecurityGroup :: "call list \<Rightarrow> string \<Rightarrow> string \<Rightarrow> string \<Rightarrow> error + string option"
  answer_AuthorizeSecurityGroupIngressFromGroup ::
    "call list \<Rightarrow> string option \<Rightarrow> string option \<Rightarrow> error + unit"
  answer_DeleteSecurityGroup :: "call list \<Rightarrow> SecurityGroup \<Rightarrow> error + unit"
  answer_DescribeAutoScalingGroup :: "call list \<Rightarrow> string \<Rightarrow> error + AutoScalingGroup option"
  answer_DescribeLaunchConfiguration :: "call list \<Rightarrow> string \<Rightarrow> error + LaunchConfiguration option"
  answer_CreateLaunchConfiguration ::
    "call list \<Rightarrow> string \<Rightarrow> string \<Rightarrow> string \<Rightarrow> string \<Rightarrow> string \<Rightarrow> string \<Rightarrow> string option list
       \<Rightarrow> error + unit"
  answer_CreateAutoScalingGroup ::
    "call list \<Rightarrow> string \<Rightarrow> string \<Rightarrow> string \<Rightarrow> int \<Rightarrow> int \<Rightarrow> error + unit"
  answer_UpdateAutoScalingGroupMaxSize :: "call list \<Rightarrow> string \<Rightarrow> int \<Rightarrow> error + unit"
  answer_UpdateAutoScalingGroupMinSize :: "call list \<Rightarrow> string \<Rightarrow> int \<Rightarrow> error + unit"
  answer_DeleteAutoScalingGroup :: "call list \<Rightarrow> string \<Rightarrow> error + unit"
  answer_DeleteLaunchConfiguration :: "call list \<Rightarrow> string \<Rightarrow> error + unit"

definition Helper_DescribeClusters :: "provider \<Rightarrow> (call, Cluster list) io" where
  "Helper_DescribeClusters P = invoke ECS_Helper_DescribeClusters (answer_Helper_DescribeClusters P)"

definition DescribeCluster :: "provider \<Rightarrow> string \<Rightarrow> (call, Cluster option) io" where
  "DescribeCluster P name = invoke (ECS_DescribeCluster name) (\<lambda>h. answer_DescribeCluster P h name)"

definition CreateCluster :: "provider \<Rightarrow> string \<Rightarrow> (call, Cluster option) io" where
  "CreateCluster P name = invoke (ECS_CreateCluster name) (\<lambda>h. answer_CreateCluster P h name)"

definition DeleteCluster :: "provider \<Rightarrow> string \<Rightarrow> (call, unit) io" where
  "DeleteCluster P name = invoke (ECS_DeleteCluster name) (\<lambda>h. answer_DeleteCluster P h name)"

definition DescribeSecurityGroup :: "provider \<Rightarrow> string \<Rightarrow> (call, SecurityGroup option) io" where
  "DescribeSecurityGroup P name =
     invoke (EC2_DescribeSecurityGroup name) (\<lambda>h. answer_DescribeSecurityGroup P h name)"

definition CreateSecurityGroup ::
  "provider \<Rightarrow> string \<Rightarrow> string \<Rightarrow> string \<Rightarrow> (call, string option) io" where
  "CreateSecurityGroup P name description vpcID =
     invoke (EC2_CreateSecurityGroup name description vpcID)
       (\<lambda>h. answer_CreateSecurityGroup P h name description vpcID)"

definition AuthorizeSecurityGroupIngressFromGroup ::
  "provider \<Rightarrow> string option \<Rightarrow> string option \<Rightarrow> (call, unit) io" where
  "AuthorizeSecurityGroupIngressFromGroup P groupID sourceGroupID =
     invoke (EC2_AuthorizeSecurityGroupIngressFromGroup groupID sourceGroupID)
       (\<lambda>h. answer_AuthorizeSecurityGroupIngressFromGroup P h groupID sourceGroupID)"

definition DeleteSecurityGroup :: "provider \<Rightarrow> SecurityGroup \<Rightarrow> (call, unit) io" where
  "DeleteSecurityGroup P securityGroup =
     invoke (EC2_DeleteSecurityGroup securityGroup) (\<lambda>h. answer_DeleteSecurityGroup P h securityGroup)"

definition DescribeAutoScalingGroup :: "provider \<Rightarrow> string \<Rightarrow> (call, AutoScalingGroup option) io" where
  "DescribeAutoScalingGroup P name =
     invoke (AutoScaling_DescribeAutoScalingGroup name) (\<lambda>h. answer_DescribeAutoScalingGroup P h name)"

definition DescribeLaunchConfiguration ::
  "provider \<Rightarrow> string \<Rightarrow> (call, LaunchConfiguration option) io" where
  "DescribeLaunchConfiguration P name =
     invoke (AutoScaling_DescribeLaunchConfiguration name)
       (\<lambda>h. answer_DescribeLaunchConfiguration P h name)"

definition CreateLaunchConfiguration ::
  "provider \<Rightarrow> string \<Rightarrow> string \<Rightarrow> string \<Rightarrow> string \<Rightarrow> string \<Rightarrow> string \<Rightarrow> string option list
     \<Rightarrow> (call, unit) io" where
  "CreateLaunchConfiguration P name amiID iamInstanceProfile instanceType keyName userData securityGroups =
     invoke (AutoScaling_CreateLaunchConfiguration name amiID iamInstanceProfile instanceType keyName
               userData securityGroups)
       (\<lambda>h. answer_CreateLaunchConfiguration P h name amiID iamInstanceProfile instanceType keyName
               userData securityGroups)"

definition CreateAutoScalingGroup ::
  "provider \<Rightarrow> string \<Rightarrow> string \<Rightarrow> string \<Rightarrow> int \<Rightarrow> int \<Rightarrow> (call, unit) io" where
  "CreateAutoScalingGroup P name launchConfigName subnets minCount maxCount =
     invoke (AutoScaling_CreateAutoScalingGroup name launchConfigName subnets minCount maxCount)
       (\<lambda>h. answer_CreateAutoScalingGroup P h name launchConfigName subnets minCount maxCount)"

definition UpdateAutoScalingGroupMaxSize :: "provider \<Rightarrow> string \<Rightarrow> int \<Rightarrow> (call, unit) io" where
  "UpdateAutoScalingGroupMaxSize P name n =
     invoke (AutoScaling_UpdateAutoScalingGroupMaxSize name n)
       (\<lambda>h. answer_UpdateAutoScalingGroupMaxSize P h name n)"

definition UpdateAutoScalingGroupMinSize :: "provider \<Rightarrow> string \<Rightarrow> int \<Rightarrow> (call, unit) io" where
  "UpdateAutoScalingGroupMinSize P name n =
     invoke (AutoScaling_UpdateAutoScalingGroupMinSize name n)
       (\<lambda>h. answer_UpdateAutoScalingGroupMinSize P h name n)"

definition DeleteAutoScalingGroup :: "provider \<Rightarrow> string \<Rightarrow> (call, unit) io" where
  "DeleteAutoScalingGroup P name =
     invoke (AutoScaling_DeleteAutoScalingGroup name) (\<lambda>h. answer_DeleteAutoScalingGroup P h name)"

definition DeleteLaunchConfiguration :: "provider \<Rightarrow> string \<Rightarrow> (call, unit) io" where
  "DeleteLaunchConfiguration P name =
     invoke (AutoScaling_DeleteLaunchConfiguration name) (\<lambda>h. answer_DeleteLaunchConfiguration P h name)"

text \<open>\<^verbatim>\<open>Clock.Sleep\<close>, in seconds.\<close>

definition Sleep :: "nat \<Rightarrow> (call, unit) io" where
  "Sleep seconds = invoke (Clock_Sleep seconds) (\<lambda>h. Inr ())"

subsection \<open>The Waiter\<close>

text \<open>
  Modelled from the spec: \<^verbatim>\<open>waitutils.Waiter\<close> and its method \<^verbatim>\<open>Wait\<close>, whose file
  is not at hand. Section 4.3: given a predicate function returning (done, err), a retry
  budget and a delay interval, it invokes the predicate until the predicate reports done,
  reports an error, or the retry budget is exhausted, in which case it fails with a timeout
  error carrying the name; the delay goes through the clock. \<open>Wait_from n\<close> is the loop
  with \<open>n\<close> invocations left.
\<close>

record Waiter =
  Name :: string
  Retries :: nat
  Delay :: nat
  Check :: "(call, bool) io"

fun Wait_from :: "nat \<Rightarrow> Waiter \<Rightarrow> (call, unit) io" where
  "Wait_from 0 w h = (Inl (WaitTimeout (Name w)), h)"
| "Wait_from (Suc n) w h =
     (case Check w h of
        (Inl err, h1) \<Rightarrow> (Inl err, h1)
      | (Inr done, h1) \<Rightarrow>
          if done then (Inr (), h1)
          else (case Sleep (Delay w) h1 of (r, h2) \<Rightarrow> Wait_from n w h2))"

definition Wait :: "Waiter \<Rightarrow> (call, unit) io" where
  "Wait w = Wait_from (Retries w) w"


subsection \<open>Reading\<close>

text \<open>
  \<^verbatim>\<open>ListEnvironments\<close>: the loop over the clusters, then the function. The ID type
  conversion of a cluster name is the identity on strings.
\<close>

fun ListEnvironments_loop :: "deps \<Rightarrow> Cluster list \<Rightarrow> Environment list \<Rightarrow> error + Environment list" where
  "ListEnvironments_loop cfg [] environments = Inr environments"
| "ListEnvironments_loop cfg (cluster # clusters) environments =
     (case ClusterName cluster of
        None \<Rightarrow> Inl NilPanic
      | Some name \<Rightarrow>
          if prefix (PREFIX cfg) name
          then ListEnvironments_loop cfg clusters
                 (environments @ [zero_Environment\<lparr>EnvironmentID := L0EnvironmentID cfg name\<rparr>])
          else ListEnvironments_loop cfg clusters environments)"

definition ListEnvironments :: "provider \<Rightarrow> deps \<Rightarrow> (call, Environment list) io" where
  "ListEnvironments P cfg =
     bind_io (Helper_DescribeClusters P)
       (\<lambda>clusters. case ListEnvironments_loop cfg clusters [] of
                      Inl err \<Rightarrow> raise err
                    | Inr environments \<Rightarrow> ret environments)"

text \<open>\<^verbatim>\<open>describeAutoscalingGroup\<close>.\<close>

definition describeAutoscalingGroup :: "provider \<Rightarrow> deps \<Rightarrow> string \<Rightarrow> (call, AutoScalingGroup option) io" where
  "describeAutoscalingGroup P cfg ecsEnvironmentID =
     bind_io (DescribeAutoScalingGroup P (AutoScalingGroupName cfg ecsEnvironmentID)) (\<lambda>asg. ret asg)"

text \<open>
  \<^verbatim>\<open>populateModel\<close>. The first block computes the three variables
  \<^verbatim>\<open>clusterCount\<close>, \<^verbatim>\<open>instanceSize\<close> and \<^verbatim>\<open>amiID\<close>, which start at their zero
  values; a "not found" answer is logged and leaves the pointer nil.
\<close>

definition populateModel :: "provider \<Rightarrow> deps \<Rightarrow> Cluster option \<Rightarrow> (call, Environment) io" where
  "populateModel P cfg cluster =
     (case cluster of
        None \<Rightarrow> raise NilPanic
      | Some c \<Rightarrow>
     (case ClusterName c of
        None \<Rightarrow> raise NilPanic
      | Some ecsEnvironmentID \<Rightarrow>
     bind_io
       (handle (describeAutoscalingGroup P cfg ecsEnvironmentID)
          (\<lambda>err. if ContainsErrMsg cfg err ''not found'' then ret None else raise err))
       (\<lambda>asg.
     bind_io
       (case asg of
          None \<Rightarrow> ret (0, [], [])
        | Some g \<Rightarrow>
            (case group_LaunchConfigurationName g of
               None \<Rightarrow> ret (int (length (Instances g)), [], [])
             | Some launchConfigurationName \<Rightarrow>
                 bind_io
                   (handle (DescribeLaunchConfiguration P launchConfigurationName)
                      (\<lambda>err. if ContainsErrMsg cfg err ''not found'' then ret None else raise err))
                   (\<lambda>launchConfig.
                      case launchConfig of
                        None \<Rightarrow> ret (int (length (Instances g)), [], [])
                      | Some lc \<Rightarrow>
                          (case InstanceType lc of
                             None \<Rightarrow> raise NilPanic
                           | Some instanceType \<Rightarrow>
                               (case ImageId lc of
                                  None \<Rightarrow> raise NilPanic
                                | Some imageId \<Rightarrow>
                                    ret (int (length (Instances g)), instanceType, imageId))))))
       (\<lambda>(clusterCount, instanceSize, amiID).
     bind_io (DescribeSecurityGroup P (SecurityGroupName cfg ecsEnvironmentID))
       (\<lambda>securityGroup.
          ret (zero_Environment
                 \<lparr>EnvironmentID := L0EnvironmentID cfg ecsEnvironmentID,
                  ClusterCount := clusterCount,
                  InstanceSize := instanceSize,
                  SecurityGroupID :=
                    (case securityGroup of None \<Rightarrow> [] | Some sg \<Rightarrow> pstring (GroupId sg)),
                  AMIID := amiID\<rparr>))))))"

text \<open>\<^verbatim>\<open>GetEnvironment\<close>.\<close>

definition GetEnvironment :: "provider \<Rightarrow> deps \<Rightarrow> string \<Rightarrow> (call, Environment) io" where
  "GetEnvironment P cfg environmentID =
     bind_io
       (handle (DescribeCluster P (ECSEnvironmentID cfg environmentID))
          (\<lambda>err. if ContainsErrCode cfg err ''ClusterNotFoundException''
                      \<or> ContainsErrMsg cfg err ''cluster not found''
                   then raise (ServerError ''InvalidEnvironmentID''
                                 (''Environment with id '' @ quoted environmentID @ '' was not found''))
                   else raise err))
       (\<lambda>cluster. populateModel P cfg cluster)"

subsection \<open>Creating\<close>

text \<open>\<^verbatim>\<open>renderUserData\<close>.\<close>

definition renderUserData :: "deps \<Rightarrow> string \<Rightarrow> string \<Rightarrow> error + string" where
  "renderUserData cfg ecsEnvironmentID userData =
     (case template_Parse cfg userData of
        Inl err \<Rightarrow> Inl (PlainErr (''Failed to parse user data: '' @ err_Error err))
      | Inr tmpl \<Rightarrow>
          (case template_Execute cfg tmpl ecsEnvironmentID (AWSS3Bucket cfg) of
             Inl err \<Rightarrow> Inl (PlainErr (''Failed to render user data: '' @ err_Error err))
           | Inr rendered \<Rightarrow> Inr (base64_EncodeToString cfg rendered)))"

text \<open>\<^verbatim>\<open>CreateEnvironment\<close>.\<close>

definition CreateEnvironment ::
  "provider \<Rightarrow> deps \<Rightarrow> string \<Rightarrow> string \<Rightarrow> string \<Rightarrow> string \<Rightarrow> int \<Rightarrow> string \<Rightarrow> (call, Environment) io" where
  "CreateEnvironment P cfg environmentName instanceSize operatingSystem amiID minClusterCount
       userDataTemplate =
     (if ToLower cfg operatingSystem \<noteq> ''linux'' \<and> ToLower cfg operatingSystem \<noteq> ''windows''
      then raise (PlainErr (''Operating system '' @ quoted operatingSystem @ '' is not recognized''))
      else
       (let defaultUserDataTemplate =
              (if ToLower cfg operatingSystem = ''linux'' then defaultLinuxUserDataTemplate cfg
               else defaultWindowsUserDataTemplate cfg);
            serviceAMI0 =
              (if ToLower cfg operatingSystem = ''linux'' then AWSLinuxServiceAMI cfg
               else AWSWindowsServiceAMI cfg);
            environmentID = GenerateHashedEntityID cfg environmentName;
            ecsEnvironmentID = ECSEnvironmentID cfg environmentID;
            userDataTemplate1 =
              (if length userDataTemplate = 0 then defaultUserDataTemplate else userDataTemplate);
            serviceAMI = (if amiID \<noteq> [] then amiID else serviceAMI0)
        in
        case renderUserData cfg ecsEnvironmentID userDataTemplate1 of
          Inl err \<Rightarrow> raise err
        | Inr userData \<Rightarrow>
        bind_io (CreateCluster P ecsEnvironmentID) (\<lambda>cluster.
        bind_io (CreateSecurityGroup P (SecurityGroupName cfg ecsEnvironmentID)
                   ''Auto-generated Layer0 Environment Security Group'' (AWSVPCID cfg)) (\<lambda>groupID.
        bind_io (Sleep 2) (\<lambda>u.
        bind_io (AuthorizeSecurityGroupIngressFromGroup P groupID groupID) (\<lambda>u.
        bind_io (CreateLaunchConfiguration P (LaunchConfigurationName cfg ecsEnvironmentID)
                   serviceAMI (AWSECSInstanceProfile cfg) instanceSize (AWSKeyPair cfg) userData
                   [groupID, Some (AWSAgentGroupID cfg)]) (\<lambda>u.
        bind_io (CreateAutoScalingGroup P (AutoScalingGroupName cfg ecsEnvironmentID)
                   (LaunchConfigurationName cfg ecsEnvironmentID) (AWSPrivateSubnets cfg)
                   minClusterCount (if minClusterCount > 0 then minClusterCount else 0)) (\<lambda>u.
        populateModel P cfg cluster))))))))"

subsection \<open>Updating\<close>

text \<open>
  \<^verbatim>\<open>updateEnvironmentMinCount\<close> and \<^verbatim>\<open>UpdateEnvironment\<close>. The sizes are Go
  integers of 64 bits that are only compared, never computed with; they are integers here.
\<close>

definition updateEnvironmentMinCount :: "provider \<Rightarrow> deps \<Rightarrow> Environment \<Rightarrow> int \<Rightarrow> (call, unit) io" where
  "updateEnvironmentMinCount P cfg model minClusterCount =
     (let ecsEnvironmentID = ECSEnvironmentID cfg (EnvironmentID model);
          autoScalingGroupName = AutoScalingGroupName cfg ecsEnvironmentID
      in
      bind_io (describeAutoscalingGroup P cfg ecsEnvironmentID) (\<lambda>asg.
        case asg of
          None \<Rightarrow> raise NilPanic
        | Some g \<Rightarrow>
            (case MaxSize g of
               None \<Rightarrow> raise NilPanic
             | Some maxSize \<Rightarrow>
                 bind_io
                   (if maxSize < minClusterCount
                    then UpdateAutoScalingGroupMaxSize P autoScalingGroupName minClusterCount
                    else ret ())
                   (\<lambda>u. bind_io (UpdateAutoScalingGroupMinSize P autoScalingGroupName minClusterCount)
                          (\<lambda>u. ret ())))))"

definition UpdateEnvironment :: "provider \<Rightarrow> deps \<Rightarrow> string \<Rightarrow> int \<Rightarrow> (call, Environment) io" where
  "UpdateEnvironment P cfg environmentID minClusterCount =
     bind_io (GetEnvironment P cfg environmentID) (\<lambda>model.
       bind_io (updateEnvironmentMinCount P cfg model minClusterCount) (\<lambda>u. ret model))"

subsection \<open>Deleting\<close>

text \<open>
  \<^verbatim>\<open>waitForAutoScalingGroupInactive\<close>. The check logs the status of the group it was
  given, reading through the pointer.
\<close>

definition waitForAutoScalingGroupInactive :: "provider \<Rightarrow> deps \<Rightarrow> string \<Rightarrow> (call, unit) io" where
  "waitForAutoScalingGroupInactive P cfg ecsEnvironmentID =
     Wait \<lparr>Name = ''Stop Autoscaling '' @ AutoScalingGroupName cfg ecsEnvironmentID,
           Retries = 50,
           Delay = 10,
           Check =
             (\<lambda>h. case DescribeAutoScalingGroup P (AutoScalingGroupName cfg ecsEnvironmentID) h of
                     (Inl err, h1) \<Rightarrow>
                       if ContainsErrMsg cfg err ''not found'' then (Inr True, h1) else (Inl err, h1)
                   | (Inr grp, h1) \<Rightarrow>
                       (case grp of None \<Rightarrow> (Inl NilPanic, h1) | Some g \<Rightarrow> (Inr False, h1)))\<rparr>"

text \<open>\<^verbatim>\<open>waitForSecurityGroupDeleted\<close>: every error of the delete means "not yet".\<close>

definition waitForSecurityGroupDeleted :: "provider \<Rightarrow> deps \<Rightarrow> SecurityGroup \<Rightarrow> (call, unit) io" where
  "waitForSecurityGroupDeleted P cfg securityGroup =
     Wait \<lparr>Name = ''SecurityGroup delete for '' @ quoted (fmt_SecurityGroup cfg securityGroup),
           Retries = 50,
           Delay = 10,
           Check =
             (\<lambda>h. case DeleteSecurityGroup P securityGroup h of
                     (Inl err, h1) \<Rightarrow> (Inr False, h1)
                   | (Inr u, h1) \<Rightarrow> (Inr True, h1))\<rparr>"

text \<open>\<^verbatim>\<open>DeleteEnvironment\<close>.\<close>

definition DeleteEnvironment :: "provider \<Rightarrow> deps \<Rightarrow> string \<Rightarrow> (call, unit) io" where
  "DeleteEnvironment P cfg environmentID =
     (let ecsEnvironmentID = ECSEnvironmentID cfg environmentID;
          autoScalingGroupName = AutoScalingGroupName cfg ecsEnvironmentID;
          launchConfigurationName = LaunchConfigurationName cfg ecsEnvironmentID
      in
      bind_io
        (handle (UpdateAutoScalingGroupMinSize P autoScalingGroupName 0)
           (\<lambda>err. if \<not> ContainsErrMsg cfg err ''name not found''
                       \<and> \<not> ContainsErrMsg cfg err ''is pending delete''
                    then raise err else ret ())) (\<lambda>u.
      bind_io
        (handle (UpdateAutoScalingGroupMaxSize P autoScalingGroupName 0)
           (\<lambda>err. if \<not> ContainsErrMsg cfg err ''name not found''
                       \<and> \<not> ContainsErrMsg cfg err ''is pending delete''
                    then raise err else ret ())) (\<lambda>u.
      bind_io
        (handle (DeleteAutoScalingGroup P autoScalingGroupName)
           (\<lambda>err. if \<not> ContainsErrMsg cfg err ''name not found'' then raise err else ret ())) (\<lambda>u.
      bind_io
        (handle (DeleteLaunchConfiguration P launchConfigurationName)
           (\<lambda>err. if \<not> ContainsErrMsg cfg err ''name not found'' then raise err else ret ())) (\<lambda>u.
      bind_io (waitForAutoScalingGroupInactive P cfg ecsEnvironmentID) (\<lambda>u.
      bind_io (DescribeSecurityGroup P (SecurityGroupName cfg ecsEnvironmentID)) (\<lambda>securityGroup.
      bind_io
        (case securityGroup of
           None \<Rightarrow> ret ()
         | Some sg \<Rightarrow> waitForSecurityGroupDeleted P cfg sg) (\<lambda>u.
      bind_io
        (handle (DeleteCluster P ecsEnvironmentID)
           (\<lambda>err. if \<not> ContainsErrCode cfg err ''ClusterNotFoundException'' then raise err else ret ()))
        (\<lambda>u. ret ())))))))))"

subsection \<open>Linking\<close>

text \<open>\<^verbatim>\<open>getEnvironmentSecurityGroup\<close> and \<^verbatim>\<open>CreateEnvironmentLink\<close>.\<close>

definition getEnvironmentSecurityGroup :: "provider \<Rightarrow> deps \<Rightarrow> string \<Rightarrow> (call, SecurityGroup) io" where
  "getEnvironmentSecurityGroup P cfg environmentID =
     bind_io (DescribeSecurityGroup P (SecurityGroupName cfg environmentID)) (\<lambda>group.
       case group of
         None \<Rightarrow> raise (PlainErr (''Security group for environment ''
                                    @ quoted (L0EnvironmentID cfg environmentID) @ '' does not exist''))
       | Some g \<Rightarrow> ret g)"

definition CreateEnvironmentLink :: "provider \<Rightarrow> deps \<Rightarrow> string \<Rightarrow> string \<Rightarrow> (call, unit) io" where
  "CreateEnvironmentLink P cfg sourceEnvironmentID destEnvironmentID =
     (let sourceECSID = ECSEnvironmentID cfg sourceEnvironmentID;
          destECSID = ECSEnvironmentID cfg destEnvironmentID
      in
      bind_io (getEnvironmentSecurityGroup P cfg sourceECSID) (\<lambda>sourceGroup.
      bind_io (getEnvironmentSecurityGroup P cfg destECSID) (\<lambda>destGroup.
      bind_io
        (handle (AuthorizeSecurityGroupIngressFromGroup P (GroupId sourceGroup) (GroupId destGroup))
           (\<lambda>err. if \<not> ContainsErrCode cfg err ''InvalidPermission.Duplicate'' then raise err else ret ()))
        (\<lambda>u.
      bind_io
        (handle (AuthorizeSecurityGroupIngressFromGroup P (GroupId destGroup) (GroupId sourceGroup))
           (\<lambda>err. if \<not> ContainsErrCode cfg err ''InvalidPermission.Duplicate'' then raise err else ret ()))
        (\<lambda>u. ret ())))))"

section \<open>Concrete tables and providers\<close>

text \<open>
  A table without items that refuses a put whose key has an empty part, as the service
  does for an empty key attribute.
\<close>

definition strict_table :: dynamo_table where
  "strict_table =
     \<lparr>items = [], sent = [],
      refuses = (\<lambda>r. case r of
                    PutIfNotExists s \<Rightarrow>
                      if EntityType s = [] \<or> EntityID s = []
                      then Some (AwsErr ''ValidationException'' ''One or more parameter values were invalid'')
                      else None
                  | _ \<Rightarrow> None)\<rparr>"

text \<open>
  A task provider whose task exists and whose \<^verbatim>\<open>StopTask\<close> is refused for a reason
  other than "not found".
\<close>

definition denied_tasks :: TaskProvider where
  "denied_tasks =
     \<lparr>answer_lookupEntityEnvironmentID = (\<lambda>h entityType entityID. Inr ''e1''),
      answer_lookupTaskARN = (\<lambda>h taskID. Inr ''arn:aws:ecs:task/1''),
      answer_StopTask = (\<lambda>h clusterName taskARN.
         Inl (AwsErr ''AccessDeniedException'' ''User is not authorized to perform ecs:StopTask'')),
      answer_deleteEntityTags = (\<lambda>h entityType entityID. Inr ()),
      addLayer0Prefix = (\<lambda>environmentID. ''l0-test-'' @ environmentID),
      Validate = (\<lambda>clusterName taskARN. None)\<rparr>"

text \<open>
  Modelled from the spec: the helpers \<^verbatim>\<open>ContainsErrCode\<close> and \<^verbatim>\<open>ContainsErrMsg\<close>
  of the manager's package, whose file is not at hand. Section 4.4: a provider response is
  recognised by "specific error codes or message substrings". The general theorems below
  hold for any pair of helpers; these two are used where a run is evaluated.
\<close>

definition spec_ContainsErrCode :: "error \<Rightarrow> string \<Rightarrow> bool" where
  "spec_ContainsErrCode err code = (case err of AwsErr c m \<Rightarrow> strings_Contains c code | _ \<Rightarrow> False)"

definition spec_ContainsErrMsg :: "error \<Rightarrow> string \<Rightarrow> bool" where
  "spec_ContainsErrMsg err msg = strings_Contains (err_Error err) msg"

text \<open>The names and settings of a test instance.\<close>

definition test_deps :: deps where
  "test_deps =
     \<lparr>PREFIX = ''l0-test-'',
      ECSEnvironmentID = (\<lambda>l0id. ''l0-test-'' @ l0id),
      L0EnvironmentID = (\<lambda>ecsid. drop 8 ecsid),
      SecurityGroupName = (\<lambda>ecsid. ecsid @ ''-env''),
      AutoScalingGroupName = (\<lambda>ecsid. ecsid),
      LaunchConfigurationName = (\<lambda>ecsid. ecsid),
      GenerateHashedEntityID = (\<lambda>name. name @ ''7f3a9''),
      AWSLinuxServiceAMI = ''ami-linux'',
      AWSWindowsServiceAMI = ''ami-windows'',
      AWSVPCID = ''vpc-1'',
      AWSAgentGroupID = ''sg-agent'',
      AWSECSInstanceProfile = ''ecs-role'',
      AWSKeyPair = ''key-1'',
      AWSPrivateSubnets = ''subnet-1,subnet-2'',
      AWSS3Bucket = ''bucket-1'',
      defaultLinuxUserDataTemplate = ''linux-template'',
      defaultWindowsUserDataTemplate = ''windows-template'',
      template_Parse = (\<lambda>text. Inr text),
      template_Execute = (\<lambda>tmpl ecsid bucket. Inr (tmpl @ '' '' @ ecsid @ '' '' @ bucket)),
      base64_EncodeToString = (\<lambda>bytes. bytes),
      ToLower = ascii_ToLower,
      ContainsErrCode = spec_ContainsErrCode,
      ContainsErrMsg = spec_ContainsErrMsg,
      fmt_SecurityGroup = (\<lambda>sg. pstring (GroupId sg))\<rparr>"

text \<open>
  A provider on which nothing exists: every mutation and description of a resource is
  answered "not found", and a security group is described as \<^verbatim>\<open>nil\<close>.
\<close>

definition vacant_aws :: provider where
  "vacant_aws =
     \<lparr>answer_Helper_DescribeClusters = (\<lambda>h. Inr []),
      answer_DescribeCluster = (\<lambda>h name. Inl (AwsErr ''ClusterNotFoundException'' ''Cluster not found.'')),
      answer_CreateCluster = (\<lambda>h name. Inr (Some \<lparr>ClusterName = Some name\<rparr>)),
      answer_DeleteCluster = (\<lambda>h name. Inl (AwsErr ''ClusterNotFoundException'' ''Cluster not found.'')),
      answer_DescribeSecurityGroup = (\<lambda>h name. Inr None),
      answer_CreateSecurityGroup = (\<lambda>h name description vpcID. Inr (Some ''sg-1'')),
      answer_AuthorizeSecurityGroupIngressFromGroup = (\<lambda>h groupID sourceGroupID. Inr ()),
      answer_DeleteSecurityGroup = (\<lambda>h securityGroup.
         Inl (AwsErr ''InvalidGroup.NotFound'' ''The security group does not exist'')),
      answer_DescribeAutoScalingGroup = (\<lambda>h name. Inl (PlainErr ''AutoScalingGroup not found'')),
      answer_DescribeLaunchConfiguration = (\<lambda>h name. Inl (PlainErr ''LaunchConfiguration not found'')),
      answer_CreateLaunchConfiguration = (\<lambda>h name amiID profile instanceType keyName userData groups. Inr ()),
      answer_CreateAutoScalingGroup = (\<lambda>h name launchConfigName subnets minCount maxCount. Inr ()),
      answer_UpdateAutoScalingGroupMaxSize = (\<lambda>h name n.
         Inl (AwsErr ''ValidationError'' ''AutoScalingGroup name not found - null'')),
      answer_UpdateAutoScalingGroupMinSize = (\<lambda>h name n.
         Inl (AwsErr ''ValidationError'' ''AutoScalingGroup name not found - null'')),
      answer_DeleteAutoScalingGroup = (\<lambda>h name.
         Inl (AwsErr ''ValidationError'' ''AutoScalingGroup name not found - null'')),
      answer_DeleteLaunchConfiguration = (\<lambda>h name.
         Inl (AwsErr ''ValidationError'' ''Launch configuration name not found - null''))\<rparr>"

text \<open>
  A provider on which every environment is there, with two instances and bounds up to 2:
  every call succeeds, except that an ingress rule authorized before is answered
  \<^verbatim>\<open>InvalidPermission.Duplicate\<close>.
\<close>

definition steady_aws :: provider where
  "steady_aws =
     \<lparr>answer_Helper_DescribeClusters = (\<lambda>h.
         Inr [\<lparr>ClusterName = Some ''l0-test-prod7f3a9''\<rparr>, \<lparr>ClusterName = Some ''default''\<rparr>]),
      answer_DescribeCluster = (\<lambda>h name. Inr (Some \<lparr>ClusterName = Some name\<rparr>)),
      answer_CreateCluster = (\<lambda>h name. Inr (Some \<lparr>ClusterName = Some name\<rparr>)),
      answer_DeleteCluster = (\<lambda>h name. Inr ()),
      answer_DescribeSecurityGroup = (\<lambda>h name. Inr (Some \<lparr>GroupId = Some (''sg-'' @ name)\<rparr>)),
      answer_CreateSecurityGroup = (\<lambda>h name description vpcID. Inr (Some (''sg-'' @ name))),
      answer_AuthorizeSecurityGroupIngressFromGroup = (\<lambda>h groupID sourceGroupID.
         if EC2_AuthorizeSecurityGroupIngressFromGroup groupID sourceGroupID \<in> set h
         then Inl (AwsErr ''InvalidPermission.Duplicate'' ''the specified rule already exists'')
         else Inr ()),
      answer_DeleteSecurityGroup = (\<lambda>h securityGroup. Inr ()),
      answer_DescribeAutoScalingGroup = (\<lambda>h name.
         Inr (Some \<lparr>Instances = [''i-1'', ''i-2''], group_LaunchConfigurationName = Some name,
                     MaxSize = Some 2, Status = None\<rparr>)),
      answer_DescribeLaunchConfiguration = (\<lambda>h name.
         Inr (Some \<lparr>InstanceType = Some ''m3.medium'', ImageId = Some ''ami-linux''\<rparr>)),
      answer_CreateLaunchConfiguration = (\<lambda>h name amiID profile instanceType keyName userData groups. Inr ()),
      answer_CreateAutoScalingGroup = (\<lambda>h name launchConfigName subnets minCount maxCount. Inr ()),
      answer_UpdateAutoScalingGroupMaxSize = (\<lambda>h name n. Inr ()),
      answer_UpdateAutoScalingGroupMinSize = (\<lambda>h name n. Inr ()),
      answer_DeleteAutoScalingGroup = (\<lambda>h name. Inr ()),
      answer_DeleteLaunchConfiguration = (\<lambda>h name. Inr ())\<rparr>"

text \<open>An answer that is a success, or an error that the predicate accepts.\<close>

definition succeeds_or :: "(error \<Rightarrow> bool) \<Rightarrow> error + 'a \<Rightarrow> bool" where
  "succeeds_or accepted r = (case r of Inl e \<Rightarrow> accepted e | Inr x \<Rightarrow> True)"

text \<open>
  The bounds of the scaling group \<open>name\<close> after the calls of a list, each of them served.
\<close>

fun apply_bounds :: "string \<Rightarrow> int \<times> int \<Rightarrow> call \<Rightarrow> int \<times> int" where
  "apply_bounds name (lo, hi) (AutoScaling_UpdateAutoScalingGroupMaxSize n m) =
     (if n = name then (lo, m) else (lo, hi))"
| "apply_bounds name (lo, hi) (AutoScaling_UpdateAutoScalingGroupMinSize n m) =
     (if n = name then (m, hi) else (lo, hi))"
| "apply_bounds name (lo, hi) c = (lo, hi)"

definition bounds_after :: "string \<Rightarrow> int \<times> int \<Rightarrow> call list \<Rightarrow> int \<times> int" where
  "bounds_after name b calls = foldl (apply_bounds name) b calls"

text \<open>
  The six calls of \<^verbatim>\<open>CreateEnvironment\<close> in the order of section 4.4: create the
  cluster, create the security group, wait two seconds, authorize ingress from the group
  into itself, create the launch configuration, create the scaling group with the requested
  count as minimum and, as maximum, the same count when it is positive and zero otherwise.
\<close>

definition create_plan ::
  "deps \<Rightarrow> string \<Rightarrow> string \<Rightarrow> string \<Rightarrow> string \<Rightarrow> string option \<Rightarrow> int \<Rightarrow> call list" where
  "create_plan cfg ecsEnvironmentID serviceAMI instanceSize userData groupID minClusterCount =
     [ECS_CreateCluster ecsEnvironmentID,
      EC2_CreateSecurityGroup (SecurityGroupName cfg ecsEnvironmentID)
        ''Auto-generated Layer0 Environment Security Group'' (AWSVPCID cfg),
      Clock_Sleep 2,
      EC2_AuthorizeSecurityGroupIngressFromGroup groupID groupID,
      AutoScaling_CreateLaunchConfiguration (LaunchConfigurationName cfg ecsEnvironmentID) serviceAMI
        (AWSECSInstanceProfile cfg) instanceSize (AWSKeyPair cfg) userData
        [groupID, Some (AWSAgentGroupID cfg)],
      AutoScaling_CreateAutoScalingGroup (AutoScalingGroupName cfg ecsEnvironmentID)
        (LaunchConfigurationName cfg ecsEnvironmentID) (AWSPrivateSubnets cfg)
        minClusterCount (if 0 < minClusterCount then minClusterCount else 0)]"

text \<open>The calls that only describe a resource.\<close>

fun is_describe :: "call \<Rightarrow> bool" where
  "is_describe (AutoScaling_DescribeAutoScalingGroup n) = True"
| "is_describe (AutoScaling_DescribeLaunchConfiguration n) = True"
| "is_describe (EC2_DescribeSecurityGroup n) = True"
| "is_describe c = False"

text \<open>
  The provider calls of \<^verbatim>\<open>DeleteEnvironment\<close> in the order of section 4.4, with
  \<open>polls\<close> descriptions of the scaling group and \<open>attempts\<close> deletions of the security
  group \<open>sg\<close> (none when the group is described as \<^verbatim>\<open>nil\<close>). \<open>provider_calls\<close> drops the
  sleeps of the clock from a trace.
\<close>

definition delete_plan :: "deps \<Rightarrow> string \<Rightarrow> nat \<Rightarrow> SecurityGroup option \<Rightarrow> nat \<Rightarrow> call list" where
  "delete_plan cfg ecsEnvironmentID polls sg attempts =
     [AutoScaling_UpdateAutoScalingGroupMinSize (AutoScalingGroupName cfg ecsEnvironmentID) 0,
      AutoScaling_UpdateAutoScalingGroupMaxSize (AutoScalingGroupName cfg ecsEnvironmentID) 0,
      AutoScaling_DeleteAutoScalingGroup (AutoScalingGroupName cfg ecsEnvironmentID),
      AutoScaling_DeleteLaunchConfiguration (LaunchConfigurationName cfg ecsEnvironmentID)]
     @ replicate polls (AutoScaling_DescribeAutoScalingGroup (AutoScalingGroupName cfg ecsEnvironmentID))
     @ [EC2_DescribeSecurityGroup (SecurityGroupName cfg ecsEnvironmentID)]
     @ (case sg of None \<Rightarrow> [] | Some g \<Rightarrow> replicate attempts (EC2_DeleteSecurityGroup g))
     @ [ECS_DeleteCluster ecsEnvironmentID]"



text \<open>
  The scaling group and the launch configuration of an environment are already absent
  from the calls \<open>h\<close> on: whatever calls follow, each of the first four steps of
  \<^verbatim>\<open>DeleteEnvironment\<close> is answered with a success or with the answer that the step
  takes for "already absent", and the scaling group is described as "not found". The
  environment is absent when, besides, its security group is described as \<^verbatim>\<open>nil\<close> and
  the delete of its cluster is answered with a success or with "cluster not found".
\<close>

definition scaling_group_absent :: "provider \<Rightarrow> deps \<Rightarrow> string \<Rightarrow> call list \<Rightarrow> bool" where
  "scaling_group_absent P cfg ecsEnvironmentID h =
     (\<forall>h'.
        succeeds_or (\<lambda>e. ContainsErrMsg cfg e ''name not found'' \<or> ContainsErrMsg cfg e ''is pending delete'')
          (answer_UpdateAutoScalingGroupMinSize P (h @ h') (AutoScalingGroupName cfg ecsEnvironmentID) 0)
      \<and> succeeds_or (\<lambda>e. ContainsErrMsg cfg e ''name not found'' \<or> ContainsErrMsg cfg e ''is pending delete'')
          (answer_UpdateAutoScalingGroupMaxSize P (h @ h') (AutoScalingGroupName cfg ecsEnvironmentID) 0)
      \<and> succeeds_or (\<lambda>e. ContainsErrMsg cfg e ''name not found'')
          (answer_DeleteAutoScalingGroup P (h @ h') (AutoScalingGroupName cfg ecsEnvironmentID))
      \<and> succeeds_or (\<lambda>e. ContainsErrMsg cfg e ''name not found'')
          (answer_DeleteLaunchConfiguration P (h @ h') (LaunchConfigurationName cfg ecsEnvironmentID))
      \<and> (\<exists>e. answer_DescribeAutoScalingGroup P (h @ h') (AutoScalingGroupName cfg ecsEnvironmentID) = Inl e
              \<and> ContainsErrMsg cfg e ''not found''))"

definition environment_absent :: "provider \<Rightarrow> deps \<Rightarrow> string \<Rightarrow> call list \<Rightarrow> bool" where
  "environment_absent P cfg ecsEnvironmentID h =
     (scaling_group_absent P cfg ecsEnvironmentID h
      \<and> (\<forall>h'.
            answer_DescribeSecurityGroup P (h @ h') (SecurityGroupName cfg ecsEnvironmentID) = Inr None
          \<and> succeeds_or (\<lambda>e. ContainsErrCode cfg e ''ClusterNotFoundException'')
              (answer_DeleteCluster P (h @ h') ecsEnvironmentID)))"

text \<open>
  A provider that answers a delete of the scaling group with "is pending delete", and a
  provider that describes a security group which its delete then reports as not found.
\<close>

definition pending_aws :: provider where
  "pending_aws =
     steady_aws\<lparr>answer_DeleteAutoScalingGroup :=
       (\<lambda>h name. Inl (AwsErr ''ValidationError'' ''AutoScalingGroup is pending delete''))\<rparr>"

definition stale_group_aws :: provider where
  "stale_group_aws =
     vacant_aws\<lparr>answer_DescribeSecurityGroup := (\<lambda>h name. Inr (Some \<lparr>GroupId = Some ''sg-1''\<rparr>))\<rparr>"

text \<open>
  A task provider whose task is there and has stopped already: \<^verbatim>\<open>StopTask\<close> is
  answered "task was not found".
\<close>

definition stopped_tasks :: TaskProvider where
  "stopped_tasks =
     \<lparr>answer_lookupEntityEnvironmentID = (\<lambda>h entityType entityID. Inr ''e1''),
      answer_lookupTaskARN = (\<lambda>h taskID. Inr ''arn:aws:ecs:task/1''),
      answer_StopTask = (\<lambda>h clusterName taskARN.
         Inl (AwsErr ''InvalidParameterException'' ''The referenced task was not found.'')),
      answer_deleteEntityTags = (\<lambda>h entityType entityID. Inr ()),
      addLayer0Prefix = (\<lambda>environmentID. ''l0-test-'' @ environmentID),
      Validate = (\<lambda>clusterName taskARN. None)\<rparr>"

text \<open>A task provider that knows no task.\<close>

definition unknown_tasks :: TaskProvider where
  "unknown_tasks =
     \<lparr>answer_lookupEntityEnvironmentID = (\<lambda>h entityType entityID.
         Inl (PlainErr ''no environment_id tag'')),
      answer_lookupTaskARN = (\<lambda>h taskID. Inl (PlainErr ''no arn tag'')),
      answer_StopTask = (\<lambda>h clusterName taskARN. Inl (AwsErr ''InvalidParameterException'' ''task was not found'')),
      answer_deleteEntityTags = (\<lambda>h entityType entityID. Inr ()),
      addLayer0Prefix = (\<lambda>environmentID. ''l0-test-'' @ environmentID),
      Validate = (\<lambda>clusterName taskARN. None)\<rparr>"

section \<open>Properties of the tag store\<close>

lemma list_ex_find: "list_ex P xs \<longleftrightarrow> find P xs \<noteq> None"
  by (induction xs) auto

lemma find_append_new:
  "find P xs = None \<Longrightarrow> find P (xs @ [s]) = (if P s then Some s else None)"
  by (induction xs) (auto split: if_splits)

lemma find_append_other:
  "\<not> P s \<Longrightarrow> find P (xs @ [s]) = find P xs"
  by (induction xs) auto

lemma find_map_set_tags:
  "find (has_key et eid) (map (\<lambda>s. if has_key et eid s then s\<lparr>Tags := tags\<rparr> else s) xs)
     = map_option (\<lambda>s. s\<lparr>Tags := tags\<rparr>) (find (has_key et eid) xs)"
  by (induction xs) (auto simp: has_key_def)

lemma find_filter_same:
  "find (has_key et eid) (filter (\<lambda>s. \<not> has_key et eid s) xs) = None"
  by (induction xs) auto

lemma find_has_key: "find (has_key et eid) xs = Some s \<Longrightarrow> EntityType s = et \<and> EntityID s = eid"
  by (induction xs) (auto simp: has_key_def split: if_splits)

lemma stored_tags_clean: "[] \<notin> snd ` set al \<Longrightarrow> stored_tags al = al"
  by (induction al) (auto simp: stored_tags_def)

lemma stored_tags_values: "[] \<notin> snd ` set (stored_tags al)"
  by (auto simp: stored_tags_def)

lemma update_clean: "[] \<notin> snd ` set al \<Longrightarrow> v \<noteq> [] \<Longrightarrow> [] \<notin> snd ` set (AList.update k v al)"
  by (induction al) (auto)

lemma delete_clean: "[] \<notin> snd ` set al \<Longrightarrow> [] \<notin> snd ` set (AList.delete k al)"
  by (induction al) (auto)

lemma tag_Insert_new:
  assumes "serves_all t" "record_of t et eid = None"
  shows "\<exists>t'. tag_Insert (mk_tag et eid (k, v)) t = (Inr (), t') \<and> serves_all t'
           \<and> record_of t' et eid = Some (stored_tags [(k, v)])"
  using assms
  by (auto simp: tag_Insert_def table_PutIfNotExists_def serves_all_def record_of_def mk_tag_def
      send_def list_ex_find find_append_new has_key_def)

lemma tag_Insert_old:
  assumes "serves_all t" "record_of t et eid = Some al" "et \<noteq> []" "eid \<noteq> []"
  shows "\<exists>t'. tag_Insert (mk_tag et eid (k, v)) t = (Inr (), t') \<and> serves_all t'
           \<and> record_of t' et eid = Some (stored_tags (AList.update k v al))"
  using assms
  by (auto simp: tag_Insert_def table_PutIfNotExists_def serves_all_def record_of_def mk_tag_def
      send_def list_ex_find insertKey_def selectByTypeAndID_def table_One_def
      table_UpdateSetTags_def find_map_set_tags)

lemma tag_Delete_absent_record:
  assumes "serves_all t" "record_of t et eid = None" "et \<noteq> []" "eid \<noteq> []"
  shows "tag_Delete et eid k t = (Inl ErrNotFound, send (GetOne et eid) t)"
  using assms
  by (auto simp: tag_Delete_def selectByTypeAndID_def table_One_def serves_all_def record_of_def)

lemma tag_Delete_absent_key:
  assumes "serves_all t" "record_of t et eid = Some al" "map_of al k = None" "et \<noteq> []" "eid \<noteq> []"
  shows "tag_Delete et eid k t = (Inr (), send (GetOne et eid) t)"
  using assms
  by (auto simp: tag_Delete_def selectByTypeAndID_def table_One_def serves_all_def record_of_def)

lemma tag_Delete_present:
  assumes "serves_all t" "record_of t et eid = Some al" "map_of al k \<noteq> None" "et \<noteq> []" "eid \<noteq> []"
  shows "\<exists>t'. tag_Delete et eid k t = (Inr (), t') \<and> serves_all t'
           \<and> record_of t' et eid
               = (if AList.delete k al = [] then None else Some (stored_tags (AList.delete k al)))"
proof -
  from assms(2) obtain s where s: "find (has_key et eid) (items t) = Some s" "Tags s = al"
    by (auto simp: record_of_def)
  then have k: "EntityType s = et" "EntityID s = eid"
    using find_has_key by blast+
  show ?thesis
    using assms s k
    by (auto simp: tag_Delete_def selectByTypeAndID_def table_One_def serves_all_def record_of_def
      table_UpdateSetTags_def table_Delete_def send_def list_ex_find find_map_set_tags
      find_filter_same)
qed

lemma dom_delete: "fst ` set (AList.delete k al) = fst ` set al - {k}"
  by (induction al) auto

lemma insert_tags_sem:
  assumes "serves_all t" "et \<noteq> []" "eid \<noteq> []" "[] \<notin> snd ` set kvs"
    "record_of t et eid = None \<or> (\<exists>al. record_of t et eid = Some al \<and> al \<noteq> [] \<and> [] \<notin> snd ` set al)"
  shows "\<exists>t1. insert_tags (map (mk_tag et eid) kvs) t = (Inr (), t1) \<and> serves_all t1
           \<and> (if record_of t et eid = None \<and> kvs = [] then record_of t1 et eid = None
               else \<exists>al1. record_of t1 et eid = Some al1 \<and> al1 \<noteq> [] \<and> [] \<notin> snd ` set al1
                      \<and> fst ` set al1 = (case record_of t et eid of None \<Rightarrow> {} | Some al \<Rightarrow> fst ` set al)
                                   \<union> fst ` set kvs)"
  using assms
proof (induction kvs arbitrary: t)
  case Nil
  then show ?case by (auto split: option.splits)
next
  case (Cons kv kvs)
  obtain k v where kv: "kv = (k, v)" by (cases kv)
  have v: "v \<noteq> []" and rest: "[] \<notin> snd ` set kvs" using Cons.prems(4) kv by auto
  have "\<exists>t' al'. tag_Insert (mk_tag et eid (k, v)) t = (Inr (), t') \<and> serves_all t'
      \<and> record_of t' et eid = Some al' \<and> al' \<noteq> [] \<and> [] \<notin> snd ` set al'
      \<and> fst ` set al' = (case record_of t et eid of None \<Rightarrow> {} | Some al \<Rightarrow> fst ` set al) \<union> {k}"
  proof (cases "record_of t et eid")
    case None
    from tag_Insert_new[OF Cons.prems(1) None, of k v] v None
    show ?thesis by (auto simp: stored_tags_def)
  next
    case (Some al)
    then have al: "al \<noteq> []" "[] \<notin> snd ` set al" using Cons.prems(5) by auto
    have ne: "AList.update k v al \<noteq> []" by (cases al) (auto)
    have cl: "[] \<notin> snd ` set (AList.update k v al)" by (rule update_clean[OF al(2) v])
    from tag_Insert_old[OF Cons.prems(1) Some Cons.prems(2,3), of k v]
    show ?thesis using Some ne cl by (auto simp: stored_tags_clean[OF cl] dom_update)
  qed
  then obtain t' al' where t': "tag_Insert (mk_tag et eid (k, v)) t = (Inr (), t')" "serves_all t'"
    "record_of t' et eid = Some al'" "al' \<noteq> []" "[] \<notin> snd ` set al'"
    "fst ` set al' = (case record_of t et eid of None \<Rightarrow> {} | Some al \<Rightarrow> fst ` set al) \<union> {k}"
    by (elim exE conjE) (rule that)
  have inv: "record_of t' et eid = None \<or> (\<exists>al. record_of t' et eid = Some al \<and> al \<noteq> [] \<and> [] \<notin> snd ` set al)"
    using t' by simp
  from Cons.IH[OF t'(2) Cons.prems(2,3) rest inv] t'(3)
  obtain t1 al1 where t1: "insert_tags (map (mk_tag et eid) kvs) t' = (Inr (), t1)" "serves_all t1"
    "record_of t1 et eid = Some al1" "al1 \<noteq> []" "[] \<notin> snd ` set al1"
    "fst ` set al1 = fst ` set al' \<union> fst ` set kvs"
    by (auto split: if_splits)
  show ?case using t' t1 kv by auto
qed

lemma delete_keys_sem:
  assumes "serves_all t" "et \<noteq> []" "eid \<noteq> []" "record_of t et eid = Some al" "al \<noteq> []"
    "[] \<notin> snd ` set al" "distinct ks" "set ks \<subseteq> fst ` set al"
  shows "\<exists>t2. delete_keys et eid ks t = (Inr (), t2) \<and> serves_all t2
           \<and> (record_of t2 et eid = None \<longleftrightarrow> set ks = fst ` set al)"
  using assms
proof (induction ks arbitrary: t al)
  case Nil
  then show ?case by (cases al) auto
next
  case (Cons k ks)
  have kin: "map_of al k \<noteq> None" using Cons.prems(8) by (auto simp: map_of_eq_None_iff)
  have cl: "[] \<notin> snd ` set (AList.delete k al)" by (rule delete_clean[OF Cons.prems(6)])
  from tag_Delete_present[OF Cons.prems(1) Cons.prems(4) kin Cons.prems(2,3)]
  obtain t' where t': "tag_Delete et eid k t = (Inr (), t')" "serves_all t'"
    "record_of t' et eid = (if AList.delete k al = [] then None else Some (AList.delete k al))"
    by (auto simp: stored_tags_clean[OF cl])
  show ?case
  proof (cases "AList.delete k al = []")
    case True
    then have "fst ` set al - {k} = {}" by (metis dom_delete empty_set image_empty)
    then have keys: "fst ` set al = {k}" using Cons.prems(8) by auto
    with Cons.prems(7,8) have "ks = []" by (cases ks) auto
    with t' True keys show ?thesis by auto
  next
    case False
    have sub: "set ks \<subseteq> fst ` set (AList.delete k al)"
      using Cons.prems(7,8) by (auto simp: dom_delete)
    have r': "record_of t' et eid = Some (AList.delete k al)" using t'(3) False by simp
    have dks: "distinct ks" using Cons.prems(7) by simp
    from Cons.IH[OF t'(2) Cons.prems(2,3) r' False cl dks sub]
    obtain t2 where t2: "delete_keys et eid ks t' = (Inr (), t2)" "serves_all t2"
      "(record_of t2 et eid = None \<longleftrightarrow> set ks = fst ` set (AList.delete k al))"
      by (elim exE conjE) (rule that)
    have "set ks = fst ` set (AList.delete k al) \<longleftrightarrow> set (k # ks) = fst ` set al"
      using Cons.prems(7,8) by (auto simp: dom_delete)
    with t' t2 show ?thesis by auto
  qed
qed

lemma SelectByTypeAndID_absent:
  assumes "serves_all t" "et \<noteq> []" "eid \<noteq> []" "record_of t et eid = None"
  shows "SelectByTypeAndID et eid t = (Inr [], send (GetOne et eid) t)"
  using assms
  by (auto simp: SelectByTypeAndID_def selectByTypeAndID_def table_One_def serves_all_def
      record_of_def ErrNotFound_def)

lemmas tag_defs = tag_Insert_def table_PutIfNotExists_def insertKey_def selectByTypeAndID_def
  table_One_def table_UpdateSetTags_def tag_Delete_def table_Delete_def SelectByTypeAndID_def
  mk_tag_def record_of_def send_def has_key_def empty_table_def stored_tags_def strict_table_def
  ErrNotFound_def ToTags_def

text \<open>
  Claim C2 as stated fails in two ways. A tag with the empty value is not stored: after
  \<open>Insert\<close> of such a tag for a new entity the table holds a record of the entity with
  no tags, \<open>Delete\<close> of the key finds no key and returns \<^verbatim>\<open>nil\<close>, and the record
  stays. And with the empty entity type the table refuses the put of \<open>Insert\<close>, and
  \<open>SelectByTypeAndID\<close> returns the validation error, not the empty result.
\<close>

theorem tag_round_trip_fails:
  "fst (insert_tags [mk_tag ''task'' ''t1'' (''name'', [])] empty_table) = Inr ()
   \<and> fst (delete_keys ''task'' ''t1'' [''name'']
            (snd (insert_tags [mk_tag ''task'' ''t1'' (''name'', [])] empty_table))) = Inr ()
   \<and> record_of (snd (delete_keys ''task'' ''t1'' [''name'']
            (snd (insert_tags [mk_tag ''task'' ''t1'' (''name'', [])] empty_table)))) ''task'' ''t1''
       = Some []
   \<and> fst (insert_tags [mk_tag [] ''t1'' (''name'', ''web'')] strict_table)
       = Inl (AwsErr ''ValidationException'' ''One or more parameter values were invalid'')
   \<and> fst (SelectByTypeAndID [] ''t1'' strict_table)
       = Inl (PlainErr ''Failed to select tags: EntityType is required'')"
  by (simp add: tag_defs)

text \<open>
  Claim C2, amended. For an entity type and ID, both non-empty, that has no record, on a
  table that serves every request: inserting tags with non-empty values under any keys and
  then deleting exactly those keys, each once and in any order, succeeds at every step;
  after it \<open>SelectByTypeAndID\<close> returns the empty result and the table holds no record
  of the entity; and the record is still there after any proper part of the deletes, so it
  goes exactly with its last tag.
\<close>

theorem tag_round_trip:
  assumes "serves_all t" "et \<noteq> []" "eid \<noteq> []" "record_of t et eid = None"
    "[] \<notin> snd ` set kvs" "distinct ks" "set ks = fst ` set kvs"
  shows "\<exists>t1 t2 t3. insert_tags (map (mk_tag et eid) kvs) t = (Inr (), t1)
           \<and> delete_keys et eid ks t1 = (Inr (), t2)
           \<and> SelectByTypeAndID et eid t2 = (Inr [], t3)
           \<and> record_of t2 et eid = None
           \<and> (\<forall>ks'. strict_prefix ks' ks \<longrightarrow>
                 record_of (snd (delete_keys et eid ks' t1)) et eid \<noteq> None)"
proof -
  have inv: "record_of t et eid = None \<or> (\<exists>al. record_of t et eid = Some al \<and> al \<noteq> [] \<and> [] \<notin> snd ` set al)"
    using assms(4) by simp
  from insert_tags_sem[OF assms(1-3) assms(5) inv]
  obtain t1 where t1: "insert_tags (map (mk_tag et eid) kvs) t = (Inr (), t1)" "serves_all t1"
    "if record_of t et eid = None \<and> kvs = [] then record_of t1 et eid = None
               else \<exists>al1. record_of t1 et eid = Some al1 \<and> al1 \<noteq> [] \<and> [] \<notin> snd ` set al1
                      \<and> fst ` set al1 = (case record_of t et eid of None \<Rightarrow> {} | Some al \<Rightarrow> fst ` set al)
                                   \<union> fst ` set kvs"
    by (elim exE conjE) (rule that)
  show ?thesis
  proof (cases "kvs = []")
    case True
    then have ks: "ks = []" using assms(7) by simp
    have r1: "record_of t1 et eid = None" using t1(3) assms(4) True by simp
    show ?thesis
      using t1(1) ks r1 SelectByTypeAndID_absent[OF t1(2) assms(2,3) r1] by auto
  next
    case False
    then obtain al1 where al1: "record_of t1 et eid = Some al1" and al1ne: "al1 \<noteq> []"
      and cl: "[] \<notin> snd ` set al1" and keys: "fst ` set al1 = set ks"
      using t1(3) assms(4,7) by auto
    have sub: "set ks \<subseteq> fst ` set al1" using keys by simp
    from delete_keys_sem[OF t1(2) assms(2,3) al1 al1ne cl assms(6) sub]
    obtain t2 where t2: "delete_keys et eid ks t1 = (Inr (), t2)" "serves_all t2"
      "record_of t2 et eid = None \<longleftrightarrow> set ks = fst ` set al1"
      by (elim exE conjE) (rule that)
    have r2: "record_of t2 et eid = None" using t2(3) keys by simp
    have pre: "record_of (snd (delete_keys et eid ks' t1)) et eid \<noteq> None"
      if sp: "strict_prefix ks' ks" for ks'
    proof -
      from sp obtain z zs where z: "ks = ks' @ z # zs"
        by (auto simp: strict_prefix_def prefix_def) (metis list.exhaust)
      have d': "distinct ks'" using assms(6) z by simp
      have sub': "set ks' \<subseteq> fst ` set al1" using keys z by auto
      from delete_keys_sem[OF t1(2) assms(2,3) al1 al1ne cl d' sub']
      obtain t2' where t2': "delete_keys et eid ks' t1 = (Inr (), t2')"
        "record_of t2' et eid = None \<longleftrightarrow> set ks' = fst ` set al1"
        by (elim exE conjE) (rule that)
      have "z \<in> fst ` set al1" "z \<notin> set ks'" using keys z assms(6) by auto
      then have "set ks' \<noteq> fst ` set al1" by auto
      with t2' show ?thesis by simp
    qed
    show ?thesis
      using t1(1) t2(1) r2 SelectByTypeAndID_absent[OF t2(2) assms(2,3) r2] pre by auto
  qed
qed

text \<open>The round trip at a task with two tags, deleted in the other order.\<close>

theorem tag_round_trip_witness:
  "\<exists>t1 t2 t3. insert_tags (map (mk_tag ''task'' ''t1'') [(''name'', ''web''), (''environment_id'', ''e1'')])
                 empty_table = (Inr (), t1)
           \<and> delete_keys ''task'' ''t1'' [''environment_id'', ''name''] t1 = (Inr (), t2)
           \<and> SelectByTypeAndID ''task'' ''t1'' t2 = (Inr [], t3)
           \<and> record_of t2 ''task'' ''t1'' = None
           \<and> (\<forall>ks'. strict_prefix ks' [''environment_id'', ''name''] \<longrightarrow>
                 record_of (snd (delete_keys ''task'' ''t1'' ks' t1)) ''task'' ''t1'' \<noteq> None)"
  using tag_round_trip[of empty_table "''task''" "''t1''" 
      "[(''name'', ''web''), (''environment_id'', ''e1'')]" "[''environment_id'', ''name'']"]
  by (simp add: serves_all_def empty_table_def record_of_def insert_commute)

text \<open>
  Claim C3, at an entity without a record: \<open>Delete\<close> sends the read and returns the
  error of the read, \<^verbatim>\<open>dynamo: no item found\<close>; it does not return \<^verbatim>\<open>nil\<close>.
\<close>

theorem tag_Delete_without_record_fails:
  "tag_Delete ''task'' ''t1'' ''name'' empty_table
     = (Inl (PlainErr ''dynamo: no item found''), empty_table\<lparr>sent := [GetOne ''task'' ''t1'']\<rparr>)"
  by (simp add: tag_Delete_def selectByTypeAndID_def table_One_def empty_table_def send_def
      ErrNotFound_def)

text \<open>
  Claim C9 as stated fails at \<open>Insert\<close>: with an empty entity type the conditional put
  is sent to the table, and the error returned is the one the table answers.
\<close>

theorem tag_Insert_empty_type_is_sent:
  "tag_Insert \<lparr>tag_EntityType = [], tag_EntityID = ''e1'', Key = ''k'', Value = ''v''\<rparr> strict_table
     = (Inl (AwsErr ''ValidationException'' ''One or more parameter values were invalid''),
        strict_table\<lparr>sent := [PutIfNotExists \<lparr>EntityType = [], EntityID = ''e1'', Tags = [(''k'', ''v'')]\<rparr>]\<rparr>)"
  by (simp add: tag_Insert_def table_PutIfNotExists_def strict_table_def send_def)

text \<open>
  Claim C9, amended. The operations that start with the read of one record,
  \<open>SelectByTypeAndID\<close> and \<open>Delete\<close> (and the private \<open>selectByTypeAndID\<close> and
  \<open>insertKey\<close>), fail with a local validation error when the entity type or the entity
  ID is empty, and leave the table as it was: no request is sent.
\<close>

theorem keyed_operations_validate_locally:
  assumes "entityType = [] \<or> entityID = []"
  shows "\<exists>msg. selectByTypeAndID entityType entityID t = (Inl (PlainErr msg), t)
           \<and> SelectByTypeAndID entityType entityID t = (Inl (PlainErr msg), t)
           \<and> tag_Delete entityType entityID key t = (Inl (PlainErr msg), t)
           \<and> insertKey \<lparr>tag_EntityType = entityType, tag_EntityID = entityID, Key = key, Value = v\<rparr> t
               = (Inl (PlainErr msg), t)"
  using assms
  by (auto simp: selectByTypeAndID_def SelectByTypeAndID_def tag_Delete_def insertKey_def)

theorem keyed_operations_validate_locally_witness:
  "\<exists>msg. selectByTypeAndID [] ''e1'' strict_table = (Inl (PlainErr msg), strict_table)
       \<and> SelectByTypeAndID [] ''e1'' strict_table = (Inl (PlainErr msg), strict_table)
       \<and> tag_Delete [] ''e1'' ''k'' strict_table = (Inl (PlainErr msg), strict_table)
       \<and> insertKey \<lparr>tag_EntityType = [], tag_EntityID = ''e1'', Key = ''k'', Value = ''v''\<rparr> strict_table
           = (Inl (PlainErr msg), strict_table)"
  using keyed_operations_validate_locally[of "[]" "''e1''" strict_table "''k''" "''v''"]
  by simp

section \<open>Properties of the task delete\<close>

lemma stopTask_returns_nil:
  "Validate t clusterName taskARN = None \<Longrightarrow>
   stopTask t clusterName taskARN h = (Inr (), h @ [ECS_StopTask clusterName taskARN])"
  by (auto simp: stopTask_def bind_io_def handle_def StopTask_def invoke_def ret_def
      split: sum.splits error.splits)

text \<open>
  Claim C4, at a stop that the provider refuses with \<^verbatim>\<open>AccessDeniedException\<close>:
  \<open>Delete\<close> returns \<^verbatim>\<open>nil\<close> and goes on to delete the tags of the task.
\<close>

theorem task_Delete_drops_stop_error:
  "task_Delete denied_tasks ''t1'' []
     = (Inr (), [LookupEntityEnvironmentID ''task'' ''t1'', LookupTaskARN ''t1'',
                 ECS_StopTask ''l0-test-e1'' ''arn:aws:ecs:task/1'', DeleteEntityTags ''task'' ''t1''])"
  by (simp add: task_Delete_def denied_tasks_def lookupEntityEnvironmentID_def lookupTaskARN_def
      deleteEntityTags_def invoke_def bind_io_def ret_def stopTask_returns_nil)

section \<open>Properties of the environment manager\<close>

lemmas io_defs = bind_io_def handle_def ret_def raise_def invoke_def

lemmas call_defs = Helper_DescribeClusters_def DescribeCluster_def CreateCluster_def DeleteCluster_def
  DescribeSecurityGroup_def CreateSecurityGroup_def AuthorizeSecurityGroupIngressFromGroup_def
  DeleteSecurityGroup_def DescribeAutoScalingGroup_def DescribeLaunchConfiguration_def
  CreateLaunchConfiguration_def CreateAutoScalingGroup_def UpdateAutoScalingGroupMaxSize_def
  UpdateAutoScalingGroupMinSize_def DeleteAutoScalingGroup_def DeleteLaunchConfiguration_def Sleep_def

lemma bind_io_Inr:
  "bind_io m f h = (Inr y, h') \<Longrightarrow> \<exists>x h1. m h = (Inr x, h1) \<and> f x h1 = (Inr y, h')"
  by (auto simp: bind_io_def split: prod.splits sum.splits)


lemma bind_io_Inr_run: "m h = (Inr x, h1) \<Longrightarrow> bind_io m f h = f x h1"
  by (simp add: bind_io_def)

lemma bind_io_invoke:
  "bind_io (invoke c a) f h = (case a h of Inl e \<Rightarrow> (Inl e, h @ [c]) | Inr x \<Rightarrow> f x (h @ [c]))"
  by (simp add: bind_io_def invoke_def split: sum.splits)


subsection \<open>Reading\<close>

lemma populateModel_fields:
  "populateModel P cfg cluster h = (Inr m, h') \<Longrightarrow>
   EnvironmentName m = [] \<and> OperatingSystem m = [] \<and> Links m = []"
  by (auto simp: populateModel_def io_defs zero_Environment_def
      split: option.splits sum.splits prod.splits if_splits)

lemma ListEnvironments_loop_fields:
  "ListEnvironments_loop cfg clusters acc = Inr ms \<Longrightarrow>
   \<forall>m \<in> set acc. m = zero_Environment\<lparr>EnvironmentID := EnvironmentID m\<rparr> \<Longrightarrow>
   \<forall>m \<in> set ms. m = zero_Environment\<lparr>EnvironmentID := EnvironmentID m\<rparr>"
  by (induction cfg clusters acc rule: ListEnvironments_loop.induct)
     (auto split: option.splits if_splits simp: zero_Environment_def)

text \<open>
  Claim C10. A model returned by \<open>GetEnvironment\<close> has an empty name, an empty operating
  system and no links; a model returned by \<open>ListEnvironments\<close> is the zero model but for
  its \<open>EnvironmentID\<close>.
\<close>

theorem read_models_zero_fields:
  "(GetEnvironment P cfg environmentID h = (Inr m, h1) \<longrightarrow>
      EnvironmentName m = [] \<and> OperatingSystem m = [] \<and> Links m = [])
   \<and> (ListEnvironments P cfg h = (Inr ms, h2) \<longrightarrow>
      (\<forall>e \<in> set ms. e = zero_Environment\<lparr>EnvironmentID := EnvironmentID e\<rparr>))"
proof -
  have "EnvironmentName m = [] \<and> OperatingSystem m = [] \<and> Links m = []"
    if "GetEnvironment P cfg environmentID h = (Inr m, h1)"
  proof -
    from that obtain cluster h' where "populateModel P cfg cluster h' = (Inr m, h1)"
      unfolding GetEnvironment_def by (blast dest: bind_io_Inr)
    then show ?thesis by (rule populateModel_fields)
  qed
  moreover have "\<forall>e \<in> set ms. e = zero_Environment\<lparr>EnvironmentID := EnvironmentID e\<rparr>"
    if "ListEnvironments P cfg h = (Inr ms, h2)"
  proof -
    from that obtain clusters h' where
      "(case ListEnvironments_loop cfg clusters [] of Inl err \<Rightarrow> raise err | Inr environments \<Rightarrow> ret environments) h'
         = (Inr ms, h2)"
      unfolding ListEnvironments_def by (blast dest: bind_io_Inr)
    then have "ListEnvironments_loop cfg clusters [] = Inr ms"
      by (auto simp: raise_def ret_def split: sum.splits)
    then show ?thesis
      by (rule ListEnvironments_loop_fields) simp
  qed
  ultimately show ?thesis by blast
qed

lemma steady_get:
  "GetEnvironment steady_aws test_deps ''prod7f3a9'' [] =
     (Inr \<lparr>EnvironmentID = ''prod7f3a9'', EnvironmentName = [], ClusterCount = 2,
           InstanceSize = ''m3.medium'', SecurityGroupID = ''sg-l0-test-prod7f3a9-env'',
           OperatingSystem = [], AMIID = ''ami-linux'', Links = []\<rparr>,
      [ECS_DescribeCluster ''l0-test-prod7f3a9'', AutoScaling_DescribeAutoScalingGroup ''l0-test-prod7f3a9'',
       AutoScaling_DescribeLaunchConfiguration ''l0-test-prod7f3a9'',
       EC2_DescribeSecurityGroup ''l0-test-prod7f3a9-env''])"
  by (simp add: GetEnvironment_def populateModel_def describeAutoscalingGroup_def io_defs call_defs
      steady_aws_def test_deps_def zero_Environment_def pstring_def)

lemma steady_list:
  "ListEnvironments steady_aws test_deps [] =
     (Inr [zero_Environment\<lparr>EnvironmentID := ''prod7f3a9''\<rparr>], [ECS_Helper_DescribeClusters])"
  by (simp add: ListEnvironments_def io_defs call_defs steady_aws_def test_deps_def)

text \<open>An environment read and the environments listed on the provider where all is there.\<close>

theorem read_models_zero_fields_witness:
  "EnvironmentName (projr (fst (GetEnvironment steady_aws test_deps ''prod7f3a9'' []))) = []
   \<and> OperatingSystem (projr (fst (GetEnvironment steady_aws test_deps ''prod7f3a9'' []))) = []
   \<and> Links (projr (fst (GetEnvironment steady_aws test_deps ''prod7f3a9'' []))) = []
   \<and> ClusterCount (projr (fst (GetEnvironment steady_aws test_deps ''prod7f3a9'' []))) = 2
   \<and> fst (ListEnvironments steady_aws test_deps []) = Inr [zero_Environment\<lparr>EnvironmentID := ''prod7f3a9''\<rparr>]"
  using read_models_zero_fields[of steady_aws test_deps "''prod7f3a9''" "[]"
      "projr (fst (GetEnvironment steady_aws test_deps ''prod7f3a9'' []))"
      "snd (GetEnvironment steady_aws test_deps ''prod7f3a9'' [])"
      "[zero_Environment\<lparr>EnvironmentID := ''prod7f3a9''\<rparr>]" "[ECS_Helper_DescribeClusters]"]
  by (simp add: steady_get steady_list)

subsection \<open>Linking\<close>

text \<open>
  Claim C7. When both environments have a security group and each of the two
  authorizations is answered with a success or with an error that
  \<^verbatim>\<open>ContainsErrCode\<close> finds to be \<^verbatim>\<open>InvalidPermission.Duplicate\<close>, the link returns
  \<^verbatim>\<open>nil\<close> after exactly four calls: the two descriptions, the ingress into the source
  group from the destination group, and the ingress the other way round.
\<close>

theorem link_authorizes_both_directions:
  assumes "answer_DescribeSecurityGroup P h
             (SecurityGroupName cfg (ECSEnvironmentID cfg sourceEnvironmentID)) = Inr (Some sourceGroup)"
    and "answer_DescribeSecurityGroup P
             (h @ [EC2_DescribeSecurityGroup (SecurityGroupName cfg (ECSEnvironmentID cfg sourceEnvironmentID))])
             (SecurityGroupName cfg (ECSEnvironmentID cfg destEnvironmentID)) = Inr (Some destGroup)"
    and "succeeds_or (\<lambda>e. ContainsErrCode cfg e ''InvalidPermission.Duplicate'')
           (answer_AuthorizeSecurityGroupIngressFromGroup P
              (h @ [EC2_DescribeSecurityGroup (SecurityGroupName cfg (ECSEnvironmentID cfg sourceEnvironmentID)),
                    EC2_DescribeSecurityGroup (SecurityGroupName cfg (ECSEnvironmentID cfg destEnvironmentID))])
              (GroupId sourceGroup) (GroupId destGroup))"
    and "succeeds_or (\<lambda>e. ContainsErrCode cfg e ''InvalidPermission.Duplicate'')
           (answer_AuthorizeSecurityGroupIngressFromGroup P
              (h @ [EC2_DescribeSecurityGroup (SecurityGroupName cfg (ECSEnvironmentID cfg sourceEnvironmentID)),
                    EC2_DescribeSecurityGroup (SecurityGroupName cfg (ECSEnvironmentID cfg destEnvironmentID)),
                    EC2_AuthorizeSecurityGroupIngressFromGroup (GroupId sourceGroup) (GroupId destGroup)])
              (GroupId destGroup) (GroupId sourceGroup))"
  shows "CreateEnvironmentLink P cfg sourceEnvironmentID destEnvironmentID h =
           (Inr (),
            h @ [EC2_DescribeSecurityGroup (SecurityGroupName cfg (ECSEnvironmentID cfg sourceEnvironmentID)),
                 EC2_DescribeSecurityGroup (SecurityGroupName cfg (ECSEnvironmentID cfg destEnvironmentID)),
                 EC2_AuthorizeSecurityGroupIngressFromGroup (GroupId sourceGroup) (GroupId destGroup),
                 EC2_AuthorizeSecurityGroupIngressFromGroup (GroupId destGroup) (GroupId sourceGroup)])"
  using assms
  by (auto simp: CreateEnvironmentLink_def getEnvironmentSecurityGroup_def io_defs
      DescribeSecurityGroup_def AuthorizeSecurityGroupIngressFromGroup_def succeeds_or_def Let_def
      split: sum.splits)

text \<open>
  Linking the environments a and b twice: the second link is answered
  \<^verbatim>\<open>InvalidPermission.Duplicate\<close> in both directions and returns \<^verbatim>\<open>nil\<close> as well.
\<close>

theorem link_authorizes_both_directions_witness:
  "CreateEnvironmentLink steady_aws test_deps ''a'' ''b'' [] =
     (Inr (), [EC2_DescribeSecurityGroup ''l0-test-a-env'', EC2_DescribeSecurityGroup ''l0-test-b-env'',
               EC2_AuthorizeSecurityGroupIngressFromGroup (Some ''sg-l0-test-a-env'') (Some ''sg-l0-test-b-env''),
               EC2_AuthorizeSecurityGroupIngressFromGroup (Some ''sg-l0-test-b-env'') (Some ''sg-l0-test-a-env'')])
   \<and> CreateEnvironmentLink steady_aws test_deps ''a'' ''b''
       [EC2_DescribeSecurityGroup ''l0-test-a-env'', EC2_DescribeSecurityGroup ''l0-test-b-env'',
        EC2_AuthorizeSecurityGroupIngressFromGroup (Some ''sg-l0-test-a-env'') (Some ''sg-l0-test-b-env''),
        EC2_AuthorizeSecurityGroupIngressFromGroup (Some ''sg-l0-test-b-env'') (Some ''sg-l0-test-a-env'')] =
     (Inr (), [EC2_DescribeSecurityGroup ''l0-test-a-env'', EC2_DescribeSecurityGroup ''l0-test-b-env'',
               EC2_AuthorizeSecurityGroupIngressFromGroup (Some ''sg-l0-test-a-env'') (Some ''sg-l0-test-b-env''),
               EC2_AuthorizeSecurityGroupIngressFromGroup (Some ''sg-l0-test-b-env'') (Some ''sg-l0-test-a-env''),
               EC2_DescribeSecurityGroup ''l0-test-a-env'', EC2_DescribeSecurityGroup ''l0-test-b-env'',
               EC2_AuthorizeSecurityGroupIngressFromGroup (Some ''sg-l0-test-a-env'') (Some ''sg-l0-test-b-env''),
               EC2_AuthorizeSecurityGroupIngressFromGroup (Some ''sg-l0-test-b-env'') (Some ''sg-l0-test-a-env'')])"
  using link_authorizes_both_directions[of steady_aws "[]" test_deps "''a''"
          "\<lparr>GroupId = Some ''sg-l0-test-a-env''\<rparr>" "''b''" "\<lparr>GroupId = Some ''sg-l0-test-b-env''\<rparr>"]
        link_authorizes_both_directions[of steady_aws
          "[EC2_DescribeSecurityGroup ''l0-test-a-env'', EC2_DescribeSecurityGroup ''l0-test-b-env'',
            EC2_AuthorizeSecurityGroupIngressFromGroup (Some ''sg-l0-test-a-env'') (Some ''sg-l0-test-b-env''),
            EC2_AuthorizeSecurityGroupIngressFromGroup (Some ''sg-l0-test-b-env'') (Some ''sg-l0-test-a-env'')]"
          test_deps "''a''"
          "\<lparr>GroupId = Some ''sg-l0-test-a-env''\<rparr>" "''b''" "\<lparr>GroupId = Some ''sg-l0-test-b-env''\<rparr>"]
  by (simp add: steady_aws_def test_deps_def succeeds_or_def spec_ContainsErrCode_def)

subsection \<open>Updating\<close>

text \<open>
  Claim C8. When the scaling group is described with maximum \<open>maxSize\<close>, the calls of
  \<open>updateEnvironmentMinCount\<close> after the description are: the update of the maximum to
  the new minimum and then, if that update is served, the update of the minimum, when the
  new minimum is above \<open>maxSize\<close>; and the update of the minimum alone otherwise. From
  bounds \<open>lo \<le> maxSize\<close>, the minimum is at most the maximum after every part of these
  calls (a call that is not served leaves the bounds of the part before it).
\<close>

theorem min_count_update_order:
  assumes "name = AutoScalingGroupName cfg (ECSEnvironmentID cfg (EnvironmentID model))"
    and "answer_DescribeAutoScalingGroup P h name = Inr (Some g)"
    and "MaxSize g = Some maxSize"
    and "lo \<le> maxSize"
  shows "\<exists>calls. snd (updateEnvironmentMinCount P cfg model minClusterCount h)
                  = h @ AutoScaling_DescribeAutoScalingGroup name # calls
           \<and> calls =
               (if maxSize < minClusterCount
                then AutoScaling_UpdateAutoScalingGroupMaxSize name minClusterCount #
                     (if isl (answer_UpdateAutoScalingGroupMaxSize P
                                (h @ [AutoScaling_DescribeAutoScalingGroup name]) name minClusterCount)
                      then []
                      else [AutoScaling_UpdateAutoScalingGroupMinSize name minClusterCount])
                else [AutoScaling_UpdateAutoScalingGroupMinSize name minClusterCount])
           \<and> (\<forall>pre. prefix pre calls \<longrightarrow>
                  fst (bounds_after name (lo, maxSize) pre) \<le> snd (bounds_after name (lo, maxSize) pre))"
  using assms
  by (auto simp: updateEnvironmentMinCount_def describeAutoscalingGroup_def io_defs Let_def
      DescribeAutoScalingGroup_def UpdateAutoScalingGroupMaxSize_def UpdateAutoScalingGroupMinSize_def
      prefix_Cons bounds_after_def
      split: sum.splits)

text \<open>Raising the minimum to 5 on a group whose bounds are 1 and 2, and to 2 on the same group.\<close>

theorem min_count_update_order_witness:
  "snd (updateEnvironmentMinCount steady_aws test_deps (zero_Environment\<lparr>EnvironmentID := ''prod7f3a9''\<rparr>) 5 [])
     = [AutoScaling_DescribeAutoScalingGroup ''l0-test-prod7f3a9'',
        AutoScaling_UpdateAutoScalingGroupMaxSize ''l0-test-prod7f3a9'' 5,
        AutoScaling_UpdateAutoScalingGroupMinSize ''l0-test-prod7f3a9'' 5]
   \<and> bounds_after ''l0-test-prod7f3a9'' (1, 2)
        [AutoScaling_UpdateAutoScalingGroupMaxSize ''l0-test-prod7f3a9'' 5] = (1, 5)
   \<and> bounds_after ''l0-test-prod7f3a9'' (1, 2)
        [AutoScaling_UpdateAutoScalingGroupMaxSize ''l0-test-prod7f3a9'' 5,
         AutoScaling_UpdateAutoScalingGroupMinSize ''l0-test-prod7f3a9'' 5] = (5, 5)
   \<and> snd (updateEnvironmentMinCount steady_aws test_deps (zero_Environment\<lparr>EnvironmentID := ''prod7f3a9''\<rparr>) 2 [])
     = [AutoScaling_DescribeAutoScalingGroup ''l0-test-prod7f3a9'',
        AutoScaling_UpdateAutoScalingGroupMinSize ''l0-test-prod7f3a9'' 2]"
  using min_count_update_order[of "''l0-test-prod7f3a9''" test_deps
          "zero_Environment\<lparr>EnvironmentID := ''prod7f3a9''\<rparr>" steady_aws "[]"
          "\<lparr>Instances = [''i-1'', ''i-2''], group_LaunchConfigurationName = Some ''l0-test-prod7f3a9'',
            MaxSize = Some 2, Status = None\<rparr>" 2 1 5]
        min_count_update_order[of "''l0-test-prod7f3a9''" test_deps
          "zero_Environment\<lparr>EnvironmentID := ''prod7f3a9''\<rparr>" steady_aws "[]"
          "\<lparr>Instances = [''i-1'', ''i-2''], group_LaunchConfigurationName = Some ''l0-test-prod7f3a9'',
            MaxSize = Some 2, Status = None\<rparr>" 2 1 2]
  by (simp add: steady_aws_def test_deps_def zero_Environment_def bounds_after_def)

subsection \<open>Creating\<close>

lemma populateModel_trace:
  "\<exists>rest. snd (populateModel P cfg cluster h) = h @ rest \<and> list_all is_describe rest"
  by (auto simp: populateModel_def describeAutoscalingGroup_def io_defs
      DescribeAutoScalingGroup_def DescribeLaunchConfiguration_def DescribeSecurityGroup_def
      split: option.splits sum.splits prod.splits if_splits)

text \<open>Runs on the provider where all is there.\<close>

lemma lower_linux: "ToLower test_deps ''linux'' = ''linux''" "ToLower test_deps ''Linux'' = ''linux''"
  "ToLower test_deps ''beos'' = ''beos''"
  by (simp_all add: test_deps_def ascii_ToLower_def lower_char_def)

lemma render_linux: "renderUserData test_deps ''l0-test-prod7f3a9'' ''linux-template''
   = Inr ''linux-template l0-test-prod7f3a9 bucket-1''"
  by (simp add: renderUserData_def test_deps_def)

lemma populate_steady:
  "populateModel steady_aws test_deps (Some \<lparr>ClusterName = Some ''l0-test-prod7f3a9''\<rparr>) h
     = (Inr \<lparr>EnvironmentID = ''prod7f3a9'', EnvironmentName = [], ClusterCount = 2,
           InstanceSize = ''m3.medium'', SecurityGroupID = ''sg-l0-test-prod7f3a9-env'',
           OperatingSystem = [], AMIID = ''ami-linux'', Links = []\<rparr>,
        h @ [AutoScaling_DescribeAutoScalingGroup ''l0-test-prod7f3a9'',
       AutoScaling_DescribeLaunchConfiguration ''l0-test-prod7f3a9'',
       EC2_DescribeSecurityGroup ''l0-test-prod7f3a9-env''])"
  by (simp add: populateModel_def describeAutoscalingGroup_def io_defs call_defs
      steady_aws_def test_deps_def zero_Environment_def pstring_def)

lemma test_deps_sel:
  "GenerateHashedEntityID test_deps n = n @ ''7f3a9''"
  "ECSEnvironmentID test_deps i = ''l0-test-'' @ i"
  "SecurityGroupName test_deps e = e @ ''-env''"
  "AutoScalingGroupName test_deps e = e"
  "LaunchConfigurationName test_deps e = e"
  "AWSLinuxServiceAMI test_deps = ''ami-linux''"
  "AWSWindowsServiceAMI test_deps = ''ami-windows''"
  "defaultWindowsUserDataTemplate test_deps = ''windows-template''"
  "AWSVPCID test_deps = ''vpc-1''"
  "AWSAgentGroupID test_deps = ''sg-agent''"
  "AWSECSInstanceProfile test_deps = ''ecs-role''"
  "AWSKeyPair test_deps = ''key-1''"
  "AWSPrivateSubnets test_deps = ''subnet-1,subnet-2''"
  "defaultLinuxUserDataTemplate test_deps = ''linux-template''"
  by (simp_all add: test_deps_def)

lemma steady_sel:
  "answer_CreateCluster steady_aws h n = Inr (Some \<lparr>ClusterName = Some n\<rparr>)"
  "answer_CreateSecurityGroup steady_aws h n d v = Inr (Some (''sg-'' @ n))"
  "answer_CreateLaunchConfiguration steady_aws h n a p i k u gs = Inr ()"
  "answer_CreateAutoScalingGroup steady_aws h n l s lo hi = Inr ()"
  by (simp_all add: steady_aws_def)

lemma steady_authorize_self:
  "EC2_AuthorizeSecurityGroupIngressFromGroup g g \<notin> set h \<Longrightarrow>
   answer_AuthorizeSecurityGroupIngressFromGroup steady_aws h g g = Inr ()"
  by (simp add: steady_aws_def)

lemma create_steady:
  "os = ''linux'' \<or> os = ''Linux'' \<Longrightarrow>
   CreateEnvironment steady_aws test_deps ''prod'' ''m3.medium'' os [] n [] []
     = (Inr \<lparr>EnvironmentID = ''prod7f3a9'', EnvironmentName = [], ClusterCount = 2,
           InstanceSize = ''m3.medium'', SecurityGroupID = ''sg-l0-test-prod7f3a9-env'',
           OperatingSystem = [], AMIID = ''ami-linux'', Links = []\<rparr>,
       [ECS_CreateCluster ''l0-test-prod7f3a9'',
        EC2_CreateSecurityGroup ''l0-test-prod7f3a9-env''
          ''Auto-generated Layer0 Environment Security Group'' ''vpc-1'',
        Clock_Sleep 2,
        EC2_AuthorizeSecurityGroupIngressFromGroup (Some ''sg-l0-test-prod7f3a9-env'')
          (Some ''sg-l0-test-prod7f3a9-env''),
        AutoScaling_CreateLaunchConfiguration ''l0-test-prod7f3a9'' ''ami-linux'' ''ecs-role''
          ''m3.medium'' ''key-1'' ''linux-template l0-test-prod7f3a9 bucket-1''
          [Some ''sg-l0-test-prod7f3a9-env'', Some ''sg-agent''],
        AutoScaling_CreateAutoScalingGroup ''l0-test-prod7f3a9'' ''l0-test-prod7f3a9''
          ''subnet-1,subnet-2'' n (if 0 < n then n else 0),
        AutoScaling_DescribeAutoScalingGroup ''l0-test-prod7f3a9'',
        AutoScaling_DescribeLaunchConfiguration ''l0-test-prod7f3a9'',
        EC2_DescribeSecurityGroup ''l0-test-prod7f3a9-env''])"
  by (auto simp add: CreateEnvironment_def Let_def lower_linux test_deps_sel render_linux
      CreateCluster_def CreateSecurityGroup_def Sleep_def AuthorizeSecurityGroupIngressFromGroup_def
      CreateLaunchConfiguration_def CreateAutoScalingGroup_def bind_io_invoke steady_sel
      steady_authorize_self populate_steady)

text \<open>
  Claim C6 as stated fails at a negative count: the scaling group is created with the
  requested minimum \<open>-1\<close> and the maximum \<open>0\<close>, not with both at zero.
\<close>

theorem create_environment_negative_count:
  "snd (CreateEnvironment steady_aws test_deps ''prod'' ''m3.medium'' ''linux'' [] (- 1) [] []) ! 5
     = AutoScaling_CreateAutoScalingGroup ''l0-test-prod7f3a9'' ''l0-test-prod7f3a9'' ''subnet-1,subnet-2'' (- 1) 0"
  by (simp add: create_steady[of "''linux''" "- 1"])

text \<open>
  Claim C6, amended. With \<open>ecsEnvironmentID\<close> the provider name of the new environment,
  \<open>serviceAMI\<close> the given AMI or else the default AMI of the operating system (the Linux
  one for "linux"), \<open>template\<close> the given user data template or else the default one, and
  \<open>groupID\<close> the ID that the creation of the security group answers:
  an operating system that is neither "linux" nor "windows" in lower case fails with no
  call made; so does a template that does not render; otherwise the calls made are a first
  part of \<open>create_plan\<close>, in its order, the whole of it unless the call has failed, and
  after the whole of it only descriptions follow. In \<open>create_plan\<close> the scaling group
  gets the requested count as its minimum and, as its maximum, the same count when it is
  positive and zero otherwise.
\<close>

theorem create_environment_order:
  assumes "ecsEnvironmentID = ECSEnvironmentID cfg (GenerateHashedEntityID cfg environmentName)"
    and "serviceAMI =
           (if amiID \<noteq> [] then amiID
            else if ToLower cfg operatingSystem = ''linux'' then AWSLinuxServiceAMI cfg
            else AWSWindowsServiceAMI cfg)"
    and "template =
           (if userDataTemplate = []
            then (if ToLower cfg operatingSystem = ''linux'' then defaultLinuxUserDataTemplate cfg
                  else defaultWindowsUserDataTemplate cfg)
            else userDataTemplate)"
    and "groupID =
           (case answer_CreateSecurityGroup P (h @ [ECS_CreateCluster ecsEnvironmentID])
                   (SecurityGroupName cfg ecsEnvironmentID)
                   ''Auto-generated Layer0 Environment Security Group'' (AWSVPCID cfg) of
              Inl e \<Rightarrow> None | Inr g \<Rightarrow> g)"
  shows "(if ToLower cfg operatingSystem = ''linux'' \<or> ToLower cfg operatingSystem = ''windows''
          then (case renderUserData cfg ecsEnvironmentID template of
                  Inl e \<Rightarrow>
                    CreateEnvironment P cfg environmentName instanceSize operatingSystem amiID
                      minClusterCount userDataTemplate h = (Inl e, h)
                | Inr userData \<Rightarrow>
                    (\<exists>k rest.
                       snd (CreateEnvironment P cfg environmentName instanceSize operatingSystem amiID
                              minClusterCount userDataTemplate h)
                         = h @ take k (create_plan cfg ecsEnvironmentID serviceAMI instanceSize userData
                                         groupID minClusterCount) @ rest
                       \<and> list_all is_describe rest
                       \<and> (if k < 6
                          then rest = [] \<and> isl (fst (CreateEnvironment P cfg environmentName instanceSize
                                  operatingSystem amiID minClusterCount userDataTemplate h))
                          else k = 6)))
          else CreateEnvironment P cfg environmentName instanceSize operatingSystem amiID
                 minClusterCount userDataTemplate h
               = (Inl (PlainErr (''Operating system '' @ quoted operatingSystem @ '' is not recognized'')), h))"
proof (cases "ToLower cfg operatingSystem = ''linux'' \<or> ToLower cfg operatingSystem = ''windows''")
  case False
  then show ?thesis by (simp add: CreateEnvironment_def raise_def)
next
  case True
  show ?thesis
  proof (cases "renderUserData cfg ecsEnvironmentID template")
    case (Inl e)
    then show ?thesis using True assms by (auto simp: CreateEnvironment_def raise_def Let_def)
  next
    case (Inr userData)
    let ?plan = "create_plan cfg ecsEnvironmentID serviceAMI instanceSize userData groupID minClusterCount"
    let ?run = "CreateEnvironment P cfg environmentName instanceSize operatingSystem amiID
                  minClusterCount userDataTemplate h"
    have "\<exists>k rest. snd ?run = h @ take k ?plan @ rest \<and> list_all is_describe rest
            \<and> (if k < 6 then rest = [] \<and> isl (fst ?run) else k = 6)"
    proof (cases "answer_CreateCluster P h ecsEnvironmentID")
      case e1: (Inl e)
      have "snd ?run = h @ take 1 ?plan @ [] \<and> isl (fst ?run)"
        using True assms Inr e1
        by (auto simp: CreateEnvironment_def Let_def CreateCluster_def bind_io_invoke create_plan_def)
      then show ?thesis by (intro exI[of _ 1] exI[of _ "[]"]) simp
    next
      case r1: (Inr cluster)
      show ?thesis
      proof (cases "answer_CreateSecurityGroup P (h @ [ECS_CreateCluster ecsEnvironmentID])
                   (SecurityGroupName cfg ecsEnvironmentID)
                   ''Auto-generated Layer0 Environment Security Group'' (AWSVPCID cfg)")
        case e2: (Inl e)
        have "snd ?run = h @ take 2 ?plan @ [] \<and> isl (fst ?run)"
          using True assms Inr r1 e2
          by (auto simp: CreateEnvironment_def Let_def CreateCluster_def CreateSecurityGroup_def
              bind_io_invoke create_plan_def)
        then show ?thesis by (intro exI[of _ 2] exI[of _ "[]"]) simp
      next
        case r2: (Inr g)
        then have g: "groupID = g" using assms(4) by simp
        let ?h3 = "h @ take 3 ?plan"
        show ?thesis
        proof (cases "answer_AuthorizeSecurityGroupIngressFromGroup P ?h3 g g")
          case e4: (Inl e)
          have "snd ?run = h @ take 4 ?plan @ [] \<and> isl (fst ?run)"
            using True assms(1-3) g Inr r1 r2 e4
            by (auto simp: CreateEnvironment_def Let_def CreateCluster_def CreateSecurityGroup_def
                Sleep_def AuthorizeSecurityGroupIngressFromGroup_def bind_io_invoke create_plan_def)
          then show ?thesis by (intro exI[of _ 4] exI[of _ "[]"]) simp
        next
          case r4: (Inr u4)
          let ?h4 = "h @ take 4 ?plan"
          show ?thesis
          proof (cases "answer_CreateLaunchConfiguration P ?h4 (LaunchConfigurationName cfg ecsEnvironmentID)
                   serviceAMI (AWSECSInstanceProfile cfg) instanceSize (AWSKeyPair cfg) userData
                   [g, Some (AWSAgentGroupID cfg)]")
            case e5: (Inl e)
            have "snd ?run = h @ take 5 ?plan @ [] \<and> isl (fst ?run)"
              using True assms(1-3) g Inr r1 r2 r4 e5
              by (auto simp: CreateEnvironment_def Let_def CreateCluster_def CreateSecurityGroup_def
                  Sleep_def AuthorizeSecurityGroupIngressFromGroup_def CreateLaunchConfiguration_def
                  bind_io_invoke create_plan_def)
            then show ?thesis by (intro exI[of _ 5] exI[of _ "[]"]) simp
          next
            case r5: (Inr u5)
            let ?h5 = "h @ take 5 ?plan"
            show ?thesis
            proof (cases "answer_CreateAutoScalingGroup P ?h5 (AutoScalingGroupName cfg ecsEnvironmentID)
                   (LaunchConfigurationName cfg ecsEnvironmentID) (AWSPrivateSubnets cfg)
                   minClusterCount (if 0 < minClusterCount then minClusterCount else 0)")
              case e6: (Inl e)
              have "snd ?run = h @ take 6 ?plan @ [] \<and> isl (fst ?run)"
                using True assms(1-3) g Inr r1 r2 r4 r5 e6
                by (auto simp: CreateEnvironment_def Let_def CreateCluster_def CreateSecurityGroup_def
                    Sleep_def AuthorizeSecurityGroupIngressFromGroup_def CreateLaunchConfiguration_def
                    CreateAutoScalingGroup_def bind_io_invoke create_plan_def)
              then show ?thesis by (intro exI[of _ 6] exI[of _ "[]"]) simp
            next
              case r6: (Inr u6)
              have run: "?run = populateModel P cfg cluster (h @ ?plan)"
                using True assms(1-3) g Inr r1 r2 r4 r5 r6
                by (auto simp: CreateEnvironment_def Let_def CreateCluster_def CreateSecurityGroup_def
                    Sleep_def AuthorizeSecurityGroupIngressFromGroup_def CreateLaunchConfiguration_def
                    CreateAutoScalingGroup_def bind_io_invoke create_plan_def)
              obtain rest where rest: "snd (populateModel P cfg cluster (h @ ?plan)) = (h @ ?plan) @ rest"
                "list_all is_describe rest"
                using populateModel_trace by blast
              have "length ?plan = 6" by (simp add: create_plan_def)
              then have "take 6 ?plan = ?plan" by simp
              with run rest have "snd ?run = h @ take 6 ?plan @ rest \<and> list_all is_describe rest" by simp
              then show ?thesis by (intro exI[of _ 6] exI[of _ rest]) simp
            qed
          qed
        qed
      qed
    qed
    with True Inr show ?thesis by simp
  qed
qed

text \<open>
  The environment "prod" with operating system "Linux", no AMI, no template and a count
  of 2: the six calls with the default Linux AMI and bounds 2 and 2, then three descriptions;
  and an operating system that is not recognized.
\<close>

theorem create_environment_order_witness:
  "snd (CreateEnvironment steady_aws test_deps ''prod'' ''m3.medium'' ''Linux'' [] 2 [] [])
     = [ECS_CreateCluster ''l0-test-prod7f3a9'',
        EC2_CreateSecurityGroup ''l0-test-prod7f3a9-env''
          ''Auto-generated Layer0 Environment Security Group'' ''vpc-1'',
        Clock_Sleep 2,
        EC2_AuthorizeSecurityGroupIngressFromGroup (Some ''sg-l0-test-prod7f3a9-env'')
          (Some ''sg-l0-test-prod7f3a9-env''),
        AutoScaling_CreateLaunchConfiguration ''l0-test-prod7f3a9'' ''ami-linux'' ''ecs-role''
          ''m3.medium'' ''key-1'' ''linux-template l0-test-prod7f3a9 bucket-1''
          [Some ''sg-l0-test-prod7f3a9-env'', Some ''sg-agent''],
        AutoScaling_CreateAutoScalingGroup ''l0-test-prod7f3a9'' ''l0-test-prod7f3a9''
          ''subnet-1,subnet-2'' 2 2,
        AutoScaling_DescribeAutoScalingGroup ''l0-test-prod7f3a9'',
        AutoScaling_DescribeLaunchConfiguration ''l0-test-prod7f3a9'',
        EC2_DescribeSecurityGroup ''l0-test-prod7f3a9-env'']
   \<and> CreateEnvironment steady_aws test_deps ''prod'' ''m3.medium'' ''beos'' [] 2 [] []
     = (Inl (PlainErr (''Operating system '' @ quoted ''beos'' @ '' is not recognized'')), [])"
proof -
  have ex: "\<exists>k rest.
      snd (CreateEnvironment steady_aws test_deps ''prod'' ''m3.medium'' ''Linux'' [] 2 [] [])
        = [] @ take k (create_plan test_deps ''l0-test-prod7f3a9'' ''ami-linux'' ''m3.medium''
                        ''linux-template l0-test-prod7f3a9 bucket-1'' (Some ''sg-l0-test-prod7f3a9-env'') 2) @ rest
      \<and> list_all is_describe rest
      \<and> (if k < 6
         then rest = [] \<and> isl (fst (CreateEnvironment steady_aws test_deps ''prod'' ''m3.medium'' ''Linux'' [] 2 [] []))
         else k = 6)"
    using create_environment_order[of "''l0-test-prod7f3a9''" test_deps "''prod''" "''ami-linux''" "[]"
          "''Linux''" "''linux-template''" "[]" "Some ''sg-l0-test-prod7f3a9-env''" steady_aws "[]"
          "''m3.medium''" 2]
    by (simp add: lower_linux test_deps_sel steady_sel render_linux)
  have unknown: "CreateEnvironment steady_aws test_deps ''prod'' ''m3.medium'' ''beos'' [] 2 [] []
     = (Inl (PlainErr (''Operating system '' @ quoted ''beos'' @ '' is not recognized'')), [])"
    using create_environment_order[of "''l0-test-prod7f3a9''" test_deps "''prod''" "''ami-windows''" "[]"
          "''beos''" "''windows-template''" "[]" "Some ''sg-l0-test-prod7f3a9-env''" steady_aws "[]"
          "''m3.medium''" 2]
    by (simp add: lower_linux test_deps_sel steady_sel)
  show ?thesis
    apply (rule conjI)
    using ex apply (simp (no_asm) add: create_steady[of "''Linux''" 2])
    apply (rule unknown)
    done
qed

subsection \<open>Deleting\<close>


lemma Wait_from_first:
  "Check w h = (Inr True, h1) \<Longrightarrow> Wait_from (Suc n) w h = (Inr (), h1)"
  by simp

lemma Wait_from_never:
  "(\<And>h. \<exists>h1. Check w h = (Inr False, h1)) \<Longrightarrow> fst (Wait_from n w h) = Inl (WaitTimeout (Name w))"
proof (induction n arbitrary: h)
  case 0
  show ?case by simp
next
  case (Suc n)
  from Suc.prems[of h] obtain h1 where "Check w h = (Inr False, h1)" by blast
  then show ?case using Suc.IH[OF Suc.prems] by (simp add: Sleep_def invoke_def)
qed

lemma waitForAutoScalingGroupInactive_Wait_from:
  "waitForAutoScalingGroupInactive P cfg ecsid =
     Wait_from 50 \<lparr>Name = ''Stop Autoscaling '' @ AutoScalingGroupName cfg ecsid,
           Retries = 50,
           Delay = 10,
           Check =
             (\<lambda>h. case DescribeAutoScalingGroup P (AutoScalingGroupName cfg ecsid) h of
                     (Inl err, h1) \<Rightarrow>
                       if ContainsErrMsg cfg err ''not found'' then (Inr True, h1) else (Inl err, h1)
                   | (Inr grp, h1) \<Rightarrow>
                       (case grp of None \<Rightarrow> (Inl NilPanic, h1) | Some g \<Rightarrow> (Inr False, h1)))\<rparr>"
  by (simp add: waitForAutoScalingGroupInactive_def Wait_def)

lemma waitForSecurityGroupDeleted_Wait_from:
  "waitForSecurityGroupDeleted P cfg sg =
     Wait_from 50 \<lparr>Name = ''SecurityGroup delete for '' @ quoted (fmt_SecurityGroup cfg sg),
           Retries = 50,
           Delay = 10,
           Check =
             (\<lambda>h. case DeleteSecurityGroup P sg h of
                     (Inl err, h1) \<Rightarrow> (Inr False, h1)
                   | (Inr u, h1) \<Rightarrow> (Inr True, h1))\<rparr>"
  by (simp add: waitForSecurityGroupDeleted_def Wait_def)



lemma waitForAutoScalingGroupInactive_gone:
  assumes "answer_DescribeAutoScalingGroup P h (AutoScalingGroupName cfg ecsid) = Inl e"
    and "ContainsErrMsg cfg e ''not found''"
  shows "waitForAutoScalingGroupInactive P cfg ecsid h
           = (Inr (), h @ [AutoScaling_DescribeAutoScalingGroup (AutoScalingGroupName cfg ecsid)])"
proof -
  have "50 = Suc 49" by simp
  show ?thesis
    unfolding waitForAutoScalingGroupInactive_Wait_from \<open>50 = Suc 49\<close>
    by (rule Wait_from_first) (use assms in \<open>simp add: DescribeAutoScalingGroup_def invoke_def\<close>)
qed

lemma waitForSecurityGroupDeleted_never:
  assumes "\<And>h. isl (answer_DeleteSecurityGroup P h sg)"
  shows "fst (waitForSecurityGroupDeleted P cfg sg h)
           = Inl (WaitTimeout (''SecurityGroup delete for '' @ quoted (fmt_SecurityGroup cfg sg)))"
proof -
  let ?w = "\<lparr>Name = ''SecurityGroup delete for '' @ quoted (fmt_SecurityGroup cfg sg),
           Retries = 50,
           Delay = 10,
           Check =
             (\<lambda>h. case DeleteSecurityGroup P sg h of
                     (Inl err, h1) \<Rightarrow> (Inr False, h1)
                   | (Inr u, h1) \<Rightarrow> (Inr True, h1))\<rparr>"
  have "fst (Wait_from 50 ?w h) = Inl (WaitTimeout (Name ?w))"
  proof (rule Wait_from_never)
    fix h
    from assms[of h] show "\<exists>h1. Check ?w h = (Inr False, h1)"
      by (auto simp: DeleteSecurityGroup_def invoke_def isl_def)
  qed
  then show ?thesis
    unfolding waitForSecurityGroupDeleted_Wait_from by simp
qed


lemma DeleteEnvironment_scaling_absent:
  assumes "scaling_group_absent P cfg (ECSEnvironmentID cfg environmentID) h"
  shows "DeleteEnvironment P cfg environmentID h =
           bind_io (DescribeSecurityGroup P (SecurityGroupName cfg (ECSEnvironmentID cfg environmentID)))
             (\<lambda>securityGroup.
                bind_io (case securityGroup of
                           None \<Rightarrow> ret ()
                         | Some sg \<Rightarrow> waitForSecurityGroupDeleted P cfg sg)
                  (\<lambda>u. bind_io
                          (handle (DeleteCluster P (ECSEnvironmentID cfg environmentID))
                             (\<lambda>err. if \<not> ContainsErrCode cfg err ''ClusterNotFoundException''
                                      then raise err else ret ()))
                          (\<lambda>u. ret ())))
             (h @ [AutoScaling_UpdateAutoScalingGroupMinSize
                     (AutoScalingGroupName cfg (ECSEnvironmentID cfg environmentID)) 0,
                   AutoScaling_UpdateAutoScalingGroupMaxSize
                     (AutoScalingGroupName cfg (ECSEnvironmentID cfg environmentID)) 0,
                   AutoScaling_DeleteAutoScalingGroup
                     (AutoScalingGroupName cfg (ECSEnvironmentID cfg environmentID)),
                   AutoScaling_DeleteLaunchConfiguration
                     (LaunchConfigurationName cfg (ECSEnvironmentID cfg environmentID)),
                   AutoScaling_DescribeAutoScalingGroup
                     (AutoScalingGroupName cfg (ECSEnvironmentID cfg environmentID))])"
proof -
  let ?ecsid = "ECSEnvironmentID cfg environmentID"
  let ?asg = "AutoScalingGroupName cfg ?ecsid"
  let ?lc = "LaunchConfigurationName cfg ?ecsid"
  let ?c1 = "AutoScaling_UpdateAutoScalingGroupMinSize ?asg 0"
  let ?c2 = "AutoScaling_UpdateAutoScalingGroupMaxSize ?asg 0"
  let ?c3 = "AutoScaling_DeleteAutoScalingGroup ?asg"
  let ?c4 = "AutoScaling_DeleteLaunchConfiguration ?lc"
  let ?cD = "AutoScaling_DescribeAutoScalingGroup ?asg"
  have a: "succeeds_or (\<lambda>e. ContainsErrMsg cfg e ''name not found'' \<or> ContainsErrMsg cfg e ''is pending delete'')
          (answer_UpdateAutoScalingGroupMinSize P (h @ h') ?asg 0)"
      "succeeds_or (\<lambda>e. ContainsErrMsg cfg e ''name not found'' \<or> ContainsErrMsg cfg e ''is pending delete'')
          (answer_UpdateAutoScalingGroupMaxSize P (h @ h') ?asg 0)"
      "succeeds_or (\<lambda>e. ContainsErrMsg cfg e ''name not found'')
          (answer_DeleteAutoScalingGroup P (h @ h') ?asg)"
      "succeeds_or (\<lambda>e. ContainsErrMsg cfg e ''name not found'')
          (answer_DeleteLaunchConfiguration P (h @ h') ?lc)"
      "\<exists>e. answer_DescribeAutoScalingGroup P (h @ h') ?asg = Inl e \<and> ContainsErrMsg cfg e ''not found''"
      for h'
    using assms unfolding scaling_group_absent_def by blast+
  have s1: "handle (UpdateAutoScalingGroupMinSize P ?asg 0)
           (\<lambda>err. if \<not> ContainsErrMsg cfg err ''name not found''
                       \<and> \<not> ContainsErrMsg cfg err ''is pending delete''
                    then raise err else ret ()) h = (Inr (), h @ [?c1])"
    using a(1)[of "[]"]
    by (auto simp: UpdateAutoScalingGroupMinSize_def handle_def invoke_def raise_def ret_def
        succeeds_or_def split: sum.splits)
  have s2: "handle (UpdateAutoScalingGroupMaxSize P ?asg 0)
           (\<lambda>err. if \<not> ContainsErrMsg cfg err ''name not found''
                       \<and> \<not> ContainsErrMsg cfg err ''is pending delete''
                    then raise err else ret ()) (h @ [?c1]) = (Inr (), h @ [?c1, ?c2])"
    using a(2)[of "[?c1]"]
    by (auto simp: UpdateAutoScalingGroupMaxSize_def handle_def invoke_def raise_def ret_def
        succeeds_or_def split: sum.splits)
  have s3: "handle (DeleteAutoScalingGroup P ?asg)
           (\<lambda>err. if \<not> ContainsErrMsg cfg err ''name not found'' then raise err else ret ())
           (h @ [?c1, ?c2]) = (Inr (), h @ [?c1, ?c2, ?c3])"
    using a(3)[of "[?c1, ?c2]"]
    by (auto simp: DeleteAutoScalingGroup_def handle_def invoke_def raise_def ret_def
        succeeds_or_def split: sum.splits)
  have s4: "handle (DeleteLaunchConfiguration P ?lc)
           (\<lambda>err. if \<not> ContainsErrMsg cfg err ''name not found'' then raise err else ret ())
           (h @ [?c1, ?c2, ?c3]) = (Inr (), h @ [?c1, ?c2, ?c3, ?c4])"
    using a(4)[of "[?c1, ?c2, ?c3]"]
    by (auto simp: DeleteLaunchConfiguration_def handle_def invoke_def raise_def ret_def
        succeeds_or_def split: sum.splits)
  have s5: "waitForAutoScalingGroupInactive P cfg ?ecsid (h @ [?c1, ?c2, ?c3, ?c4])
              = (Inr (), h @ [?c1, ?c2, ?c3, ?c4, ?cD])"
    using a(5)[of "[?c1, ?c2, ?c3, ?c4]"] waitForAutoScalingGroupInactive_gone by fastforce
  show ?thesis
    by (simp add: DeleteEnvironment_def Let_def bind_io_Inr_run s1 s2 s3 s4 s5)
qed

lemma ret_run: "ret x h = (Inr x, h)"
  by (simp add: ret_def)

lemma fst_bind_io_Inl: "fst (m h) = Inl e \<Longrightarrow> fst (bind_io m f h) = Inl e"
  by (cases "m h") (simp add: bind_io_def)

lemma DeleteEnvironment_absent:
  assumes "environment_absent P cfg (ECSEnvironmentID cfg environmentID) h"
  shows "DeleteEnvironment P cfg environmentID h
           = (Inr (), h @ delete_plan cfg (ECSEnvironmentID cfg environmentID) 1 None 0)"
proof -
  let ?ecsid = "ECSEnvironmentID cfg environmentID"
  let ?asg = "AutoScalingGroupName cfg ?ecsid"
  let ?lc = "LaunchConfigurationName cfg ?ecsid"
  let ?c1 = "AutoScaling_UpdateAutoScalingGroupMinSize ?asg 0"
  let ?c2 = "AutoScaling_UpdateAutoScalingGroupMaxSize ?asg 0"
  let ?c3 = "AutoScaling_DeleteAutoScalingGroup ?asg"
  let ?c4 = "AutoScaling_DeleteLaunchConfiguration ?lc"
  let ?cD = "AutoScaling_DescribeAutoScalingGroup ?asg"
  let ?cG = "EC2_DescribeSecurityGroup (SecurityGroupName cfg ?ecsid)"
  let ?c8 = "ECS_DeleteCluster ?ecsid"
  have sc: "scaling_group_absent P cfg ?ecsid h"
    and a: "answer_DescribeSecurityGroup P (h @ h') (SecurityGroupName cfg ?ecsid) = Inr None"
      "succeeds_or (\<lambda>e. ContainsErrCode cfg e ''ClusterNotFoundException'')
          (answer_DeleteCluster P (h @ h') ?ecsid)" for h'
    using assms unfolding environment_absent_def by blast+
  have s6: "DescribeSecurityGroup P (SecurityGroupName cfg ?ecsid) (h @ [?c1, ?c2, ?c3, ?c4, ?cD])
              = (Inr None, h @ [?c1, ?c2, ?c3, ?c4, ?cD, ?cG])"
    using a(1)[of "[?c1, ?c2, ?c3, ?c4, ?cD]"]
    by (simp add: DescribeSecurityGroup_def invoke_def)
  have s8: "handle (DeleteCluster P ?ecsid)
           (\<lambda>err. if \<not> ContainsErrCode cfg err ''ClusterNotFoundException'' then raise err else ret ())
           (h @ [?c1, ?c2, ?c3, ?c4, ?cD, ?cG]) = (Inr (), h @ [?c1, ?c2, ?c3, ?c4, ?cD, ?cG, ?c8])"
    using a(2)[of "[?c1, ?c2, ?c3, ?c4, ?cD, ?cG]"]
    by (auto simp: DeleteCluster_def handle_def invoke_def raise_def ret_def
        succeeds_or_def split: sum.splits)
  show ?thesis
    unfolding DeleteEnvironment_scaling_absent[OF sc]
    by (simp add: bind_io_Inr_run s6 s8 ret_run delete_plan_def)
qed

lemma environment_absent_later:
  assumes "environment_absent P cfg ecsid h"
  shows "environment_absent P cfg ecsid (h @ later)"
proof -
  have "scaling_group_absent P cfg ecsid (h @ later)"
    unfolding scaling_group_absent_def
  proof (intro allI)
    fix h'
    from assms have "scaling_group_absent P cfg ecsid h" by (simp add: environment_absent_def)
    from this[unfolded scaling_group_absent_def, rule_format, of "later @ h'"]
    show "succeeds_or (\<lambda>e. ContainsErrMsg cfg e ''name not found'' \<or> ContainsErrMsg cfg e ''is pending delete'')
          (answer_UpdateAutoScalingGroupMinSize P ((h @ later) @ h') (AutoScalingGroupName cfg ecsid) 0)
      \<and> succeeds_or (\<lambda>e. ContainsErrMsg cfg e ''name not found'' \<or> ContainsErrMsg cfg e ''is pending delete'')
          (answer_UpdateAutoScalingGroupMaxSize P ((h @ later) @ h') (AutoScalingGroupName cfg ecsid) 0)
      \<and> succeeds_or (\<lambda>e. ContainsErrMsg cfg e ''name not found'')
          (answer_DeleteAutoScalingGroup P ((h @ later) @ h') (AutoScalingGroupName cfg ecsid))
      \<and> succeeds_or (\<lambda>e. ContainsErrMsg cfg e ''name not found'')
          (answer_DeleteLaunchConfiguration P ((h @ later) @ h') (LaunchConfigurationName cfg ecsid))
      \<and> (\<exists>e. answer_DescribeAutoScalingGroup P ((h @ later) @ h') (AutoScalingGroupName cfg ecsid) = Inl e
              \<and> ContainsErrMsg cfg e ''not found'')"
      by simp
  qed
  moreover have "answer_DescribeSecurityGroup P ((h @ later) @ h') (SecurityGroupName cfg ecsid) = Inr None
          \<and> succeeds_or (\<lambda>e. ContainsErrCode cfg e ''ClusterNotFoundException'')
              (answer_DeleteCluster P ((h @ later) @ h') ecsid)" for h'
    using assms[unfolded environment_absent_def, THEN conjunct2, rule_format, of "later @ h'"] by simp
  ultimately show ?thesis unfolding environment_absent_def by blast
qed

lemma task_Delete_unknown:
  "isl (answer_lookupEntityEnvironmentID t ht ''task'' taskID) \<Longrightarrow>
   task_Delete t taskID ht = (Inr (), ht @ [LookupEntityEnvironmentID ''task'' taskID])"
  by (auto simp: task_Delete_def lookupEntityEnvironmentID_def invoke_def split: sum.splits)

lemma task_Delete_nil:
  assumes "\<forall>c a. Validate t c a = None"
    and "\<forall>h'. answer_deleteEntityTags t h' ''task'' taskID = Inr ()"
  shows "fst (task_Delete t taskID ht) = Inr ()"
  using assms
  by (auto simp: task_Delete_def lookupEntityEnvironmentID_def lookupTaskARN_def deleteEntityTags_def
      invoke_def bind_io_def ret_def stopTask_returns_nil split: sum.splits)

text \<open>Runs on the provider where nothing exists.\<close>

lemma test_deps_helpers:
  "ContainsErrMsg test_deps = spec_ContainsErrMsg"
  "ContainsErrCode test_deps = spec_ContainsErrCode"
  "ECSEnvironmentID test_deps i = ''l0-test-'' @ i"
  "SecurityGroupName test_deps e = e @ ''-env''"
  "AutoScalingGroupName test_deps e = e"
  "LaunchConfigurationName test_deps e = e"
  "fmt_SecurityGroup test_deps sg = pstring (GroupId sg)"
  by (simp_all add: test_deps_def)

lemma vacant_sel:
  "answer_UpdateAutoScalingGroupMinSize vacant_aws h n k
     = Inl (AwsErr ''ValidationError'' ''AutoScalingGroup name not found - null'')"
  "answer_UpdateAutoScalingGroupMaxSize vacant_aws h n k
     = Inl (AwsErr ''ValidationError'' ''AutoScalingGroup name not found - null'')"
  "answer_DeleteAutoScalingGroup vacant_aws h n
     = Inl (AwsErr ''ValidationError'' ''AutoScalingGroup name not found - null'')"
  "answer_DeleteLaunchConfiguration vacant_aws h n
     = Inl (AwsErr ''ValidationError'' ''Launch configuration name not found - null'')"
  "answer_DescribeAutoScalingGroup vacant_aws h n = Inl (PlainErr ''AutoScalingGroup not found'')"
  "answer_DescribeSecurityGroup vacant_aws h n = Inr None"
  "answer_DeleteCluster vacant_aws h n = Inl (AwsErr ''ClusterNotFoundException'' ''Cluster not found.'')"
  "answer_DeleteSecurityGroup vacant_aws h sg
     = Inl (AwsErr ''InvalidGroup.NotFound'' ''The security group does not exist'')"
  by (simp_all add: vacant_aws_def)

lemma absent_answers:
  "spec_ContainsErrMsg (AwsErr ''ValidationError'' ''AutoScalingGroup name not found - null'') ''name not found''"
  "spec_ContainsErrMsg (AwsErr ''ValidationError'' ''Launch configuration name not found - null'') ''name not found''"
  "spec_ContainsErrMsg (PlainErr ''AutoScalingGroup not found'') ''not found''"
  "spec_ContainsErrCode (AwsErr ''ClusterNotFoundException'' ''Cluster not found.'') ''ClusterNotFoundException''"
  "\<not> spec_ContainsErrMsg (AwsErr ''ValidationError'' ''AutoScalingGroup is pending delete'') ''name not found''"
  by (simp_all add: spec_ContainsErrMsg_def spec_ContainsErrCode_def)

lemma vacant_absent: "environment_absent vacant_aws test_deps ecsid h"
  by (simp add: environment_absent_def scaling_group_absent_def succeeds_or_def vacant_sel
      test_deps_helpers absent_answers)

lemma stale_group_sel:
  "answer_UpdateAutoScalingGroupMinSize stale_group_aws = answer_UpdateAutoScalingGroupMinSize vacant_aws"
  "answer_UpdateAutoScalingGroupMaxSize stale_group_aws = answer_UpdateAutoScalingGroupMaxSize vacant_aws"
  "answer_DeleteAutoScalingGroup stale_group_aws = answer_DeleteAutoScalingGroup vacant_aws"
  "answer_DeleteLaunchConfiguration stale_group_aws = answer_DeleteLaunchConfiguration vacant_aws"
  "answer_DescribeAutoScalingGroup stale_group_aws = answer_DescribeAutoScalingGroup vacant_aws"
  "answer_DeleteSecurityGroup stale_group_aws = answer_DeleteSecurityGroup vacant_aws"
  "answer_DescribeSecurityGroup stale_group_aws h n = Inr (Some \<lparr>GroupId = Some ''sg-1''\<rparr>)"
  by (simp_all add: stale_group_aws_def)

lemma stale_group_scaling_absent: "scaling_group_absent stale_group_aws test_deps ecsid h"
  by (simp add: scaling_group_absent_def succeeds_or_def stale_group_sel vacant_sel
      test_deps_helpers absent_answers)

lemma pending_sel:
  "answer_UpdateAutoScalingGroupMinSize pending_aws h n k = Inr ()"
  "answer_UpdateAutoScalingGroupMaxSize pending_aws h n k = Inr ()"
  "answer_DeleteAutoScalingGroup pending_aws h n
     = Inl (AwsErr ''ValidationError'' ''AutoScalingGroup is pending delete'')"
  by (simp_all add: pending_aws_def steady_aws_def)


text \<open>
  Claim C1 as stated fails at two steps. A delete of the scaling group that is answered
  "is pending delete" makes \<open>DeleteEnvironment\<close> return that error: only the two updates
  of the size take this answer for a success. And when the security group is described but
  its delete is answered "not found", the answer counts as "not yet": the delete is tried
  50 times and \<open>DeleteEnvironment\<close> returns the timeout of the Waiter.
\<close>

theorem delete_environment_absent_answer_refused:
  "DeleteEnvironment pending_aws test_deps ''e1'' []
     = (Inl (AwsErr ''ValidationError'' ''AutoScalingGroup is pending delete''),
        [AutoScaling_UpdateAutoScalingGroupMinSize ''l0-test-e1'' 0,
         AutoScaling_UpdateAutoScalingGroupMaxSize ''l0-test-e1'' 0,
         AutoScaling_DeleteAutoScalingGroup ''l0-test-e1''])
   \<and> fst (DeleteEnvironment stale_group_aws test_deps ''e1'' [])
     = Inl (WaitTimeout (''SecurityGroup delete for '' @ quoted ''sg-1''))"
proof -
  have "DeleteEnvironment pending_aws test_deps ''e1'' []
     = (Inl (AwsErr ''ValidationError'' ''AutoScalingGroup is pending delete''),
        [AutoScaling_UpdateAutoScalingGroupMinSize ''l0-test-e1'' 0,
         AutoScaling_UpdateAutoScalingGroupMaxSize ''l0-test-e1'' 0,
         AutoScaling_DeleteAutoScalingGroup ''l0-test-e1''])"
    by (simp add: DeleteEnvironment_def Let_def io_defs UpdateAutoScalingGroupMinSize_def
        UpdateAutoScalingGroupMaxSize_def DeleteAutoScalingGroup_def pending_sel test_deps_helpers
        absent_answers)
  moreover have "fst (DeleteEnvironment stale_group_aws test_deps ''e1'' [])
     = Inl (WaitTimeout (''SecurityGroup delete for '' @ quoted ''sg-1''))"
  proof -
    have w: "fst (waitForSecurityGroupDeleted stale_group_aws test_deps \<lparr>GroupId = Some ''sg-1''\<rparr> h)
               = Inl (WaitTimeout (''SecurityGroup delete for '' @ quoted ''sg-1''))" for h
      using waitForSecurityGroupDeleted_never[of stale_group_aws "\<lparr>GroupId = Some ''sg-1''\<rparr>" test_deps h]
      by (simp add: stale_group_sel vacant_sel test_deps_helpers pstring_def)
    have d: "DescribeSecurityGroup stale_group_aws n h
               = (Inr (Some \<lparr>GroupId = Some ''sg-1''\<rparr>), h @ [EC2_DescribeSecurityGroup n])" for n h
      by (simp add: DescribeSecurityGroup_def invoke_def stale_group_sel)
    show ?thesis
      unfolding DeleteEnvironment_scaling_absent[OF stale_group_scaling_absent]
      by (simp add: bind_io_Inr_run d fst_bind_io_Inl w)
  qed
  ultimately show ?thesis by blast
qed

text \<open>
  Claim C1, amended. When the resources of an environment are already absent (each of the
  first four steps and the delete of the cluster is answered with a success or with the
  answer that this step takes for "already absent", the scaling group is described as
  "not found" and the security group as \<^verbatim>\<open>nil\<close>), \<open>DeleteEnvironment\<close> returns
  \<^verbatim>\<open>nil\<close> after the seven calls of the plan, and so does the delete that follows it.
  The delete of a task returns \<^verbatim>\<open>nil\<close> after one call when the tag of its environment
  is not found; and it returns \<^verbatim>\<open>nil\<close> when its input is valid, \<^verbatim>\<open>StopTask\<close> is
  answered with a success or with "task was not found", and its tags are deleted.
\<close>

theorem delete_of_absent_entity:
  "(environment_absent P cfg (ECSEnvironmentID cfg environmentID) h \<longrightarrow>
      DeleteEnvironment P cfg environmentID h
        = (Inr (), h @ delete_plan cfg (ECSEnvironmentID cfg environmentID) 1 None 0)
      \<and> DeleteEnvironment P cfg environmentID
          (h @ delete_plan cfg (ECSEnvironmentID cfg environmentID) 1 None 0)
        = (Inr (), h @ delete_plan cfg (ECSEnvironmentID cfg environmentID) 1 None 0
                     @ delete_plan cfg (ECSEnvironmentID cfg environmentID) 1 None 0))
   \<and> (isl (answer_lookupEntityEnvironmentID t ht ''task'' taskID) \<longrightarrow>
        task_Delete t taskID ht = (Inr (), ht @ [LookupEntityEnvironmentID ''task'' taskID]))
   \<and> ((\<forall>c a. Validate t c a = None)
        \<and> (\<forall>h' c a. succeeds_or
                       (\<lambda>e. case e of AwsErr code m \<Rightarrow> strings_Contains m ''task was not found''
                                     | _ \<Rightarrow> False)
                       (answer_StopTask t h' c a))
        \<and> (\<forall>h'. answer_deleteEntityTags t h' ''task'' taskID = Inr ()) \<longrightarrow>
        fst (task_Delete t taskID ht) = Inr ())"
proof (intro conjI impI)
  assume a: "environment_absent P cfg (ECSEnvironmentID cfg environmentID) h"
  show "DeleteEnvironment P cfg environmentID h
        = (Inr (), h @ delete_plan cfg (ECSEnvironmentID cfg environmentID) 1 None 0)"
    by (rule DeleteEnvironment_absent[OF a])
  show "DeleteEnvironment P cfg environmentID
          (h @ delete_plan cfg (ECSEnvironmentID cfg environmentID) 1 None 0)
        = (Inr (), h @ delete_plan cfg (ECSEnvironmentID cfg environmentID) 1 None 0
                     @ delete_plan cfg (ECSEnvironmentID cfg environmentID) 1 None 0)"
    using DeleteEnvironment_absent[OF environment_absent_later[OF a]] by simp
next
  assume "isl (answer_lookupEntityEnvironmentID t ht ''task'' taskID)"
  then show "task_Delete t taskID ht = (Inr (), ht @ [LookupEntityEnvironmentID ''task'' taskID])"
    by (rule task_Delete_unknown)
next
  assume "(\<forall>c a. Validate t c a = None)
        \<and> (\<forall>h' c a. succeeds_or
                       (\<lambda>e. case e of AwsErr code m \<Rightarrow> strings_Contains m ''task was not found''
                                     | _ \<Rightarrow> False)
                       (answer_StopTask t h' c a))
        \<and> (\<forall>h'. answer_deleteEntityTags t h' ''task'' taskID = Inr ())"
  then show "fst (task_Delete t taskID ht) = Inr ()"
    using task_Delete_nil by blast
qed

text \<open>
  An environment and a task that were never created, and a task that has stopped already.
\<close>

theorem delete_of_absent_entity_witness:
  "DeleteEnvironment vacant_aws test_deps ''e1'' []
     = (Inr (), delete_plan test_deps ''l0-test-e1'' 1 None 0)
   \<and> DeleteEnvironment vacant_aws test_deps ''e1'' (delete_plan test_deps ''l0-test-e1'' 1 None 0)
     = (Inr (), delete_plan test_deps ''l0-test-e1'' 1 None 0 @ delete_plan test_deps ''l0-test-e1'' 1 None 0)
   \<and> task_Delete unknown_tasks ''t1'' [] = (Inr (), [LookupEntityEnvironmentID ''task'' ''t1''])
   \<and> fst (task_Delete stopped_tasks ''t1'' []) = Inr ()"
  using delete_of_absent_entity[of vacant_aws test_deps "''e1''" "[]" unknown_tasks "[]" "''t1''"]
        delete_of_absent_entity[of vacant_aws test_deps "''e1''" "[]" stopped_tasks "[]" "''t1''"]
        vacant_absent[of "''l0-test-e1''" "[]"]
  by (simp add: test_deps_helpers unknown_tasks_def stopped_tasks_def succeeds_or_def)

end
